theory Spec2Isabelle
  imports Complex_Main "HOL-Library.Word"
begin

section \<open>Strings, requests and the remote platform\<close>

text \<open>
  A JavaScript string is a sequence of 16-bit code units. Literals of the source are
  written with \<open>js\<close>, which maps each character of an Isabelle literal to its code unit.
\<close>

type_synonym jsstring = "16 word list"

definition js :: "string \<Rightarrow> jsstring" where
  "js s = map of_char s"

text \<open>
  \<open>String.prototype.trim\<close> removes the ECMAScript WhiteSpace and LineTerminator code
  units from both ends. The source only ever tests \<open>!s.trim()\<close>, which holds exactly
  when the trimmed string is empty.
\<close>

definition is_ws :: "16 word \<Rightarrow> bool" where
  "is_ws c \<longleftrightarrow>
     c = 0x0009 \<or> c = 0x000A \<or> c = 0x000B \<or> c = 0x000C \<or> c = 0x000D \<or> c = 0x0020 \<or>
     c = 0x00A0 \<or> c = 0x1680 \<or> (0x2000 \<le> c \<and> c \<le> 0x200A) \<or> c = 0x2028 \<or>
     c = 0x2029 \<or> c = 0x202F \<or> c = 0x205F \<or> c = 0x3000 \<or> c = 0xFEFF"

definition trim :: "jsstring \<Rightarrow> jsstring" where
  "trim s = rev (dropWhile is_ws (rev (dropWhile is_ws s)))"

text \<open>Decimal rendering of a number inside a template literal.\<close>

fun digits :: "nat \<Rightarrow> jsstring" where
  "digits n = (if n < 10 then [of_nat (48 + n)] else digits (n div 10) @ [of_nat (48 + n mod 10)])"

text \<open>
  Every call of \<open>fetch\<close> in the source is one of the following requests; the bearer
  token and the API root (\<open>getGitHubApiUrl\<close>, \<open>getGitHubHeaders\<close>) are the same in
  all of them and are left out. The arguments are organization, repository, environment and,
  for the writes, the name and the transmitted value.
  \<^item> \<open>GetEnvironment\<close>: GET \<open>/repos/{org}/{repo}/environments/{env}\<close>
  \<^item> \<open>PutEnvironment\<close>: PUT \<open>/repos/{org}/{repo}/environments/{env}\<close> with body \<open>{}\<close>
  \<^item> \<open>PutSecret\<close>: PUT \<open>/repos/{org}/{repo}/environments/{env}/secrets/{name}\<close> with
    body \<open>{encrypted_value}\<close>
  \<^item> \<open>PostVariable\<close>: POST \<open>/repos/{org}/{repo}/environments/{env}/variables\<close> with
    body \<open>{name, value}\<close>
  \<^item> \<open>ListSecrets\<close>: GET \<open>/repos/{org}/{repo}/environments/{env}/secrets\<close>
  \<^item> \<open>ListVariables\<close>: GET \<open>/repos/{org}/{repo}/environments/{env}/variables\<close>
  \<^item> \<open>ListEnvironments\<close>: GET \<open>/repos/{org}/{repo}/environments\<close>
\<close>

datatype request =
    GetEnvironment jsstring jsstring jsstring
  | PutEnvironment jsstring jsstring jsstring
  | PutSecret jsstring jsstring jsstring jsstring jsstring
  | PostVariable jsstring jsstring jsstring jsstring jsstring
  | ListSecrets jsstring jsstring jsstring
  | ListVariables jsstring jsstring jsstring
  | ListEnvironments jsstring jsstring

text \<open>
  A fetch either resolves with a response (a status and a body) or rejects with a thrown
  value. A body is either not parseable as JSON (\<open>response.json()\<close> rejects) or an
  object; only its \<open>secrets\<close> (names) and \<open>variables\<close> (names and values) arrays are
  ever read, in this order in \<open>Object\<close>, and an absent field reads as the empty array
  (\<open>data.secrets || []\<close>). A thrown value is an \<open>Error\<close>
  with its message, or something that is not an \<open>Error\<close>.
\<close>

datatype body = Unparseable | Object "jsstring list" "(jsstring \<times> jsstring) list"

datatype thrown = Error jsstring | NonError

datatype outcome = Response nat body | Throws thrown

text \<open>
  The remote platform is not under the program's control: it is any function from the log
  of requests issued so far (ending with the current one) to an outcome. \<open>fetch\<close> appends
  the request to the log and asks the platform.
\<close>

type_synonym network = "request list \<Rightarrow> outcome"

definition fetch :: "network \<Rightarrow> request \<Rightarrow> request list \<Rightarrow> outcome \<times> request list" where
  "fetch net req tr = (net (tr @ [req]), tr @ [req])"

text \<open>\<open>response.ok\<close>: the status is in the range 200 to 299.\<close>

definition ok :: "nat \<Rightarrow> bool" where
  "ok st \<longleftrightarrow> 200 \<le> st \<and> st \<le> 299"

section \<open>The browser's base64 functions\<close>

text \<open>
  \<open>btoa\<close> and \<open>atob\<close> are functions of the browser, written here after the HTML
  standard (forgiving-base64 encode and decode). \<open>btoa\<close> throws when a code unit is
  above \<open>0xFF\<close>; otherwise it encodes the code units as bytes, three bytes to four
  characters, and pads with \<open>=\<close>. \<open>atob\<close> removes ASCII whitespace, removes one or two
  trailing \<open>=\<close> when the length is a multiple of four, throws when the length is then
  one more than a multiple of four or a character is outside the alphabet, and otherwise
  decodes six bits per character, dropping the bits left over. The message of the
  exception is the browser's and is a parameter.
\<close>

definition alphabet :: jsstring where
  "alphabet = js ''ABCDEFGHIJKLMNOPQRSTUVWXYZabcdefghijklmnopqrstuvwxyz0123456789+/''"

definition pad :: "16 word" where
  "pad = 0x3D"

fun encode :: "nat list \<Rightarrow> jsstring" where
  "encode (a # b # c # rest) =
     [alphabet ! (a div 4), alphabet ! ((a mod 4) * 16 + b div 16),
      alphabet ! ((b mod 16) * 4 + c div 64), alphabet ! (c mod 64)] @ encode rest"
| "encode [a, b] =
     [alphabet ! (a div 4), alphabet ! ((a mod 4) * 16 + b div 16), alphabet ! ((b mod 16) * 4), pad]"
| "encode [a] = [alphabet ! (a div 4), alphabet ! ((a mod 4) * 16), pad, pad]"
| "encode [] = []"

definition btoa :: "jsstring \<Rightarrow> jsstring \<Rightarrow> thrown + jsstring" where
  "btoa msg s = (if \<exists>c \<in> set s. 0xFF < c then Inl (Error msg) else Inr (encode (map unat s)))"






section \<open>Toasts\<close>

text \<open>
  A notification, and the two the operations show: the number of successful writes out of
  the total, and a failure.
\<close>

record toast =
  title :: jsstring
  description :: jsstring
  variant :: "jsstring option"

definition createdToast :: "jsstring \<Rightarrow> jsstring \<Rightarrow> nat \<Rightarrow> nat \<Rightarrow> toast" where
  "createdToast ttl what successCount totalOperations =
     \<lparr>title = ttl,
      description = js ''Successfully created '' @ what @ js '' in '' @ digits successCount @
         js ''/'' @ digits totalOperations @ js '' locations'',
      variant = None\<rparr>"



section \<open>Environment manager (environment-manager component)\<close>

text \<open>
  The properties of the component that its operations read, and its state with the effects
  of the operations (the toasts shown and the log of requests issued). The lists of
  secrets and variables hold the names, and for a variable its value.
\<close>

record EnvironmentManagerProps =
  organization :: jsstring
  repository :: jsstring
  environment :: jsstring
  invalidCharacterMessage :: jsstring

record EnvironmentManager =
  secrets :: "jsstring list"
  variables :: "(jsstring \<times> jsstring) list"
  loading :: bool
  secretName :: jsstring
  secretValue :: jsstring
  variableName :: jsstring
  variableValue :: jsstring
  isCreating :: bool
  selectedRepos :: "jsstring list"
  selectedEnvironments :: "jsstring list"
  bulkMode :: bool
  toasts :: "toast list"
  requests :: "request list"




text \<open>The local variable \<open>successCount\<close> of the two operations, with the request log.\<close>

record ManagerLoop =
  successCount :: nat
  sent :: "request list"








section \<open>Inventory scan (global-secrets-list component)\<close>

record Repository =
  name :: jsstring
  full_name :: jsstring

text \<open>
  A location is a repository and an environment; the locations of a variable also carry its
  value. An entry of the inventory (\<open>SecretLocation\<close>, \<open>VariableLocation\<close> in the
  source) has a name, the locations where the name is defined and those where it is missing.
\<close>

record Location =
  repository :: jsstring
  environment :: jsstring

record ValuedLocation = Location +
  val :: jsstring

record 'l Entry =
  name :: jsstring
  locations :: "'l list"
  missingIn :: "Location list"

type_synonym SecretLocation = "Location Entry"

type_synonym VariableLocation = "ValuedLocation Entry"

definition COMMON_ENVIRONMENTS :: "jsstring list" where
  "COMMON_ENVIRONMENTS = [js ''production'', js ''staging'', js ''development'', js ''preview'']"

text \<open>
  A JavaScript \<open>Map\<close> keeps its entries in the order of insertion: a list of keys and
  values with each key at most once. \<open>has\<close>, \<open>set\<close>, and the push onto the
  \<open>locations\<close> array of the entry that \<open>get\<close> returns.
\<close>

definition mapHas :: "jsstring \<Rightarrow> (jsstring \<times> 'v) list \<Rightarrow> bool" where
  "mapHas k m \<longleftrightarrow> k \<in> set (map fst m)"

fun mapSet :: "jsstring \<Rightarrow> 'v \<Rightarrow> (jsstring \<times> 'v) list \<Rightarrow> (jsstring \<times> 'v) list" where
  "mapSet k v [] = [(k, v)]"
| "mapSet k v ((k', v') # m) = (if k = k' then (k, v) # m else (k', v') # mapSet k v m)"

definition pushLocation :: "jsstring \<Rightarrow> 'l \<Rightarrow> (jsstring \<times> 'l Entry) list \<Rightarrow> (jsstring \<times> 'l Entry) list" where
  "pushLocation k loc m =
     map (\<lambda>(k', e). if k' = k then (k', e\<lparr>locations := locations e @ [loc]\<rparr>) else (k', e)) m"

text \<open>The body of \<open>secrets.forEach\<close> and of \<open>variables.forEach\<close>, at a repository and environment.\<close>

definition addSecret ::
  "jsstring \<Rightarrow> jsstring \<Rightarrow> jsstring \<Rightarrow> (jsstring \<times> SecretLocation) list \<Rightarrow> (jsstring \<times> SecretLocation) list" where
  "addSecret repoName env secret m =
     pushLocation secret \<lparr>repository = repoName, environment = env\<rparr>
       (if \<not> mapHas secret m then mapSet secret \<lparr>name = secret, locations = [], missingIn = []\<rparr> m
        else m)"

definition addVariable ::
  "jsstring \<Rightarrow> jsstring \<Rightarrow> jsstring \<times> jsstring \<Rightarrow> (jsstring \<times> VariableLocation) list \<Rightarrow>
   (jsstring \<times> VariableLocation) list" where
  "addVariable repoName env variable m =
     pushLocation (fst variable) \<lparr>repository = repoName, environment = env, val = snd variable\<rparr>
       (if \<not> mapHas (fst variable) m
        then mapSet (fst variable) \<lparr>name = fst variable, locations = [], missingIn = []\<rparr> m
        else m)"

text \<open>
  The state of the component, with the log of requests, and the local variables of a scan.
\<close>

record GlobalSecretsListProps =
  organization :: jsstring
  repositories :: "Repository list"

record GlobalSecretsList =
  secretsMap :: "(jsstring \<times> SecretLocation) list"
  variablesMap :: "(jsstring \<times> VariableLocation) list"
  loading :: bool
  requests :: "request list"

record Scan =
  newSecretsMap :: "(jsstring \<times> SecretLocation) list"
  newVariablesMap :: "(jsstring \<times> VariableLocation) list"
  asked :: "request list"

text \<open>
  The body of the two loops: the secrets of the pair are fetched and added, then its
  variables. A fetch that throws, an answer that is not ok and a body that cannot be parsed
  leave the maps as they are.
\<close>

definition scanSecrets :: "network \<Rightarrow> GlobalSecretsListProps \<Rightarrow> jsstring \<Rightarrow> jsstring \<Rightarrow> Scan \<Rightarrow> Scan" where
  "scanSecrets net P repoName env sc =
     (case fetch net (ListSecrets (organization P) repoName env) (asked sc) of
        (Throws e, tr) \<Rightarrow> sc\<lparr>asked := tr\<rparr>
      | (Response status b, tr) \<Rightarrow>
          if ok status then
            (case b of
               Unparseable \<Rightarrow> sc\<lparr>asked := tr\<rparr>
             | Object ss vs \<Rightarrow>
                 sc\<lparr>newSecretsMap := fold (addSecret repoName env) ss (newSecretsMap sc), asked := tr\<rparr>)
          else sc\<lparr>asked := tr\<rparr>)"

definition scanVariables :: "network \<Rightarrow> GlobalSecretsListProps \<Rightarrow> jsstring \<Rightarrow> jsstring \<Rightarrow> Scan \<Rightarrow> Scan" where
  "scanVariables net P repoName env sc =
     (case fetch net (ListVariables (organization P) repoName env) (asked sc) of
        (Throws e, tr) \<Rightarrow> sc\<lparr>asked := tr\<rparr>
      | (Response status b, tr) \<Rightarrow>
          if ok status then
            (case b of
               Unparseable \<Rightarrow> sc\<lparr>asked := tr\<rparr>
             | Object ss vs \<Rightarrow>
                 sc\<lparr>newVariablesMap := fold (addVariable repoName env) vs (newVariablesMap sc),
                    asked := tr\<rparr>)
          else sc\<lparr>asked := tr\<rparr>)"

definition scanPair :: "network \<Rightarrow> GlobalSecretsListProps \<Rightarrow> jsstring \<Rightarrow> jsstring \<Rightarrow> Scan \<Rightarrow> Scan" where
  "scanPair net P repoName env sc = scanVariables net P repoName env (scanSecrets net P repoName env sc)"

text \<open>The key of a location, \<open>`${loc.repository}:${loc.environment}`\<close>.\<close>

definition key :: "'a Location_scheme \<Rightarrow> jsstring" where
  "key loc = repository loc @ js '':'' @ environment loc"

text \<open>
  \<open>allLocations\<close>, and the computation of \<open>missingIn\<close> for every entry of a map.
\<close>

definition allLocations :: "Repository list \<Rightarrow> Location list" where
  "allLocations repos =
     concat (map (\<lambda>repo. map (\<lambda>env. \<lparr>repository = Repository.name repo, environment = env\<rparr>) COMMON_ENVIRONMENTS)
               repos)"

definition setMissing :: "Location list \<Rightarrow> (jsstring \<times> 'l Location_scheme Entry) list \<Rightarrow>
    (jsstring \<times> 'l Location_scheme Entry) list" where
  "setMissing everywhere m =
     map (\<lambda>(k, e). (k, e\<lparr>missingIn :=
            filter (\<lambda>loc. key loc \<notin> set (map key (locations e))) everywhere\<rparr>)) m"

definition fetchAllSecretsAndVariables ::
  "network \<Rightarrow> GlobalSecretsListProps \<Rightarrow> GlobalSecretsList \<Rightarrow> GlobalSecretsList" where
  "fetchAllSecretsAndVariables net P g =
     (let sc = fold (\<lambda>repo. fold (\<lambda>env. scanPair net P (Repository.name repo) env) COMMON_ENVIRONMENTS)
                 (repositories P)
                 \<lparr>newSecretsMap = [], newVariablesMap = [], asked = requests g\<rparr>
      in g\<lparr>secretsMap := setMissing (allLocations (repositories P)) (newSecretsMap sc),
           variablesMap := setMissing (allLocations (repositories P)) (newVariablesMap sc),
           loading := False, requests := asked sc\<rparr>)"

text \<open>The repository and environment of a location, and the grid of a scan.\<close>

definition place :: "'a Location_scheme \<Rightarrow> jsstring \<times> jsstring" where
  "place loc = (repository loc, environment loc)"

definition grid :: "Repository list \<Rightarrow> (jsstring \<times> jsstring) list" where
  "grid repos = List.product (map Repository.name repos) COMMON_ENVIRONMENTS"

section \<open>Bulk operations (bulk-operations component)\<close>

text \<open>
  \<open>onEnvironmentCreated\<close> is an optional callback of the parent component. It takes no
  argument and its result is not used, so what an operation sees of a call is whether it
  returns or throws. That is the parent's business: like the answers of the platform, the
  model takes it as a function of the requests issued so far, \<open>None\<close> for a call that
  returns and \<open>Some e\<close> for one that throws \<open>e\<close>. The requests that the callback itself
  starts are the parent's and not in the log of this component.
\<close>

type_synonym callback = "request list \<Rightarrow> thrown option"

text \<open>
  The properties of the component that the operations read. \<open>invalidCharacterMessage\<close>
  is the message of the exception that the browser's \<open>btoa\<close> throws; its text is the
  browser's.
\<close>

record BulkOperationsProps =
  organization :: jsstring
  onEnvironmentCreated :: "callback option"
  invalidCharacterMessage :: jsstring

text \<open>
  \<open>createEnvironmentIfNeeded\<close>: returns the flag, the extended request log and
  whether the callback was called. The whole body is inside a \<open>try\<close> whose handler
  returns false: that is the result when a fetch throws, and also when the callback throws
  after the environment has been created.
\<close>

definition createEnvironmentIfNeeded ::
  "network \<Rightarrow> BulkOperationsProps \<Rightarrow> jsstring \<Rightarrow> jsstring \<Rightarrow> request list \<Rightarrow>
   bool \<times> request list \<times> bool" where
  "createEnvironmentIfNeeded net P repoName envName tr =
     (case fetch net (GetEnvironment (organization P) repoName envName) tr of
        (Throws e, tr1) \<Rightarrow> (False, tr1, False)
      | (Response checkStatus b, tr1) \<Rightarrow>
          if checkStatus = 404 then
            (case fetch net (PutEnvironment (organization P) repoName envName) tr1 of
               (Throws e, tr2) \<Rightarrow> (False, tr2, False)
             | (Response createStatus b2, tr2) \<Rightarrow>
                 if ok createStatus then
                   (case onEnvironmentCreated P of
                      None \<Rightarrow> (True, tr2, False)
                    | Some call \<Rightarrow>
                        (case call tr2 of
                           None \<Rightarrow> (True, tr2, True)
                         | Some e \<Rightarrow> (False, tr2, True)))
                 else (False, tr2, False))
          else (ok checkStatus, tr1, False))"

record OperationResult =
  repo :: jsstring
  environment :: jsstring
  success :: bool
  error :: "jsstring option"

text \<open>
  The state of the dialog, with the effects of its operations: \<open>progress\<close> lists the
  values the progress state has taken (the last one is the current value), \<open>toasts\<close>
  the notifications shown, \<open>requests\<close> the log of requests issued and \<open>callbacks\<close>
  the number of calls of \<open>onEnvironmentCreated\<close>.
\<close>

record BulkOperations =
  selectedRepos :: "jsstring list"
  selectedEnvironments :: "jsstring list"
  secretName :: jsstring
  secretValue :: jsstring
  variableName :: jsstring
  variableValue :: jsstring
  isProcessing :: bool
  progress :: "rat list"
  results :: "OperationResult list"
  toasts :: "toast list"
  requests :: "request list"
  callbacks :: nat

text \<open>
  The local variables of a bulk run, with the effects of the loop: the values passed to
  \<open>setProgress\<close>, the request log and the calls of the callback.
\<close>

record BulkLoop =
  operationResults :: "OperationResult list"
  completedOperations :: nat
  progressSet :: "rat list"
  issued :: "request list"
  notified :: nat

text \<open>
  \<open>(completedOperations / totalOperations) * 100\<close>. The source computes it on doubles;
  the model computes the exact quotient.
\<close>

definition percent :: "nat \<Rightarrow> nat \<Rightarrow> rat" where
  "percent c t = (of_nat c / of_nat t) * 100"

text \<open>\<open>operationResults.push(r)\<close>\<close>

definition pushResult :: "OperationResult \<Rightarrow> BulkLoop \<Rightarrow> BulkLoop" where
  "pushResult r l = l\<lparr>operationResults := operationResults l @ [r]\<rparr>"

text \<open>\<open>completedOperations++; setProgress((completedOperations / totalOperations) * 100)\<close>\<close>

definition completeOne :: "nat \<Rightarrow> BulkLoop \<Rightarrow> BulkLoop" where
  "completeOne totalOperations l =
     l\<lparr>completedOperations := completedOperations l + 1,
       progressSet := progressSet l @ [percent (completedOperations l + 1) totalOperations]\<rparr>"

text \<open>\<open>error instanceof Error ? error.message : "Unknown error"\<close>\<close>

fun caught :: "thrown \<Rightarrow> jsstring" where
  "caught (Error m) = m"
| "caught NonError = js ''Unknown error''"

text \<open>The effects of \<open>createEnvironmentIfNeeded\<close>, stored in the loop state.\<close>

definition ensured :: "request list \<Rightarrow> bool \<Rightarrow> BulkLoop \<Rightarrow> BulkLoop" where
  "ensured tr called l = l\<lparr>issued := tr, notified := notified l + (if called then 1 else 0)\<rparr>"

text \<open>The body of the two loops of \<open>bulkCreateSecrets\<close>, for one repository and environment.\<close>

definition secretTarget ::
  "network \<Rightarrow> BulkOperationsProps \<Rightarrow> jsstring \<Rightarrow> jsstring \<Rightarrow> nat \<Rightarrow> jsstring \<Rightarrow> jsstring \<Rightarrow>
   BulkLoop \<Rightarrow> BulkLoop" where
  "secretTarget net P nm vl totalOperations repoName env l =
     (case createEnvironmentIfNeeded net P repoName env (issued l) of
        (envCreated, tr1, called) \<Rightarrow>
          if \<not> envCreated then
            completeOne totalOperations
              (pushResult \<lparr>repo = repoName, environment = env, success = False,
                  error = Some (js ''Failed to create/access environment'')\<rparr>
                (ensured tr1 called l))
          else
            (case btoa (invalidCharacterMessage P) vl of
               Inl e \<Rightarrow>
                 completeOne totalOperations
                   (pushResult \<lparr>repo = repoName, environment = env, success = False,
                       error = Some (caught e)\<rparr>
                     (ensured tr1 called l))
             | Inr encrypted_value \<Rightarrow>
                 (case fetch net (PutSecret (organization P) repoName env nm encrypted_value) tr1 of
                    (Throws e, tr2) \<Rightarrow>
                      completeOne totalOperations
                        (pushResult \<lparr>repo = repoName, environment = env, success = False,
                            error = Some (caught e)\<rparr>
                          (ensured tr2 called l))
                  | (Response status b, tr2) \<Rightarrow>
                      completeOne totalOperations
                        (pushResult \<lparr>repo = repoName, environment = env, success = ok status,
                            error = (if ok status then None else Some (js ''HTTP '' @ digits status))\<rparr>
                          (ensured tr2 called l)))))"

text \<open>The same for \<open>bulkCreateVariables\<close>; building the body of the request cannot throw.\<close>

definition variableTarget ::
  "network \<Rightarrow> BulkOperationsProps \<Rightarrow> jsstring \<Rightarrow> jsstring \<Rightarrow> nat \<Rightarrow> jsstring \<Rightarrow> jsstring \<Rightarrow>
   BulkLoop \<Rightarrow> BulkLoop" where
  "variableTarget net P nm vl totalOperations repoName env l =
     (case createEnvironmentIfNeeded net P repoName env (issued l) of
        (envCreated, tr1, called) \<Rightarrow>
          if \<not> envCreated then
            completeOne totalOperations
              (pushResult \<lparr>repo = repoName, environment = env, success = False,
                  error = Some (js ''Failed to create/access environment'')\<rparr>
                (ensured tr1 called l))
          else
            (case fetch net (PostVariable (organization P) repoName env nm vl) tr1 of
               (Throws e, tr2) \<Rightarrow>
                 completeOne totalOperations
                   (pushResult \<lparr>repo = repoName, environment = env, success = False,
                       error = Some (caught e)\<rparr>
                     (ensured tr2 called l))
             | (Response status b, tr2) \<Rightarrow>
                 completeOne totalOperations
                   (pushResult \<lparr>repo = repoName, environment = env, success = ok status,
                       error = (if ok status then None else Some (js ''HTTP '' @ digits status))\<rparr>
                     (ensured tr2 called l))))"

text \<open>
  The two nested \<open>for ... of\<close> loops over the selected repositories and the selected
  environments, around a loop body.
\<close>

definition forTargets ::
  "(jsstring \<Rightarrow> jsstring \<Rightarrow> BulkLoop \<Rightarrow> BulkLoop) \<Rightarrow> jsstring list \<Rightarrow> jsstring list \<Rightarrow>
   BulkLoop \<Rightarrow> BulkLoop" where
  "forTargets target repos envs l = fold (\<lambda>repoName. fold (\<lambda>env. target repoName env) envs) repos l"

text \<open>
  The start of a run: \<open>setProgress(0)\<close>, \<open>completedOperations = 0\<close>,
  \<open>operationResults = []\<close>.
\<close>

definition startLoop :: "BulkOperations \<Rightarrow> BulkLoop" where
  "startLoop s =
     \<lparr>operationResults = [], completedOperations = 0, progressSet = progress s @ [0],
      issued = requests s, notified = callbacks s\<rparr>"

text \<open>
  The end of a run: \<open>setResults(operationResults)\<close>, \<open>setIsProcessing(false)\<close> and the
  toast with the number of successful results.
\<close>

definition finishLoop :: "jsstring \<Rightarrow> jsstring \<Rightarrow> nat \<Rightarrow> BulkLoop \<Rightarrow> BulkOperations \<Rightarrow> BulkOperations" where
  "finishLoop ttl what totalOperations l s =
     s\<lparr>isProcessing := False, progress := progressSet l, results := operationResults l,
       toasts := toasts s @
         [createdToast ttl what (length (filter success (operationResults l))) totalOperations],
       requests := issued l, callbacks := notified l\<rparr>"

definition bulkCreateSecrets :: "network \<Rightarrow> BulkOperationsProps \<Rightarrow> BulkOperations \<Rightarrow> BulkOperations" where
  "bulkCreateSecrets net P s =
     (if trim (secretName s) = [] \<or> trim (secretValue s) = [] \<or>
         length (selectedRepos s) = 0 \<or> length (selectedEnvironments s) = 0
      then s
      else
        let totalOperations = length (selectedRepos s) * length (selectedEnvironments s) in
        finishLoop (js ''Bulk Secret Creation Complete'') (js ''secret'') totalOperations
          (forTargets (secretTarget net P (secretName s) (secretValue s) totalOperations)
             (selectedRepos s) (selectedEnvironments s) (startLoop s))
          s)"

definition bulkCreateVariables :: "network \<Rightarrow> BulkOperationsProps \<Rightarrow> BulkOperations \<Rightarrow> BulkOperations" where
  "bulkCreateVariables net P s =
     (if trim (variableName s) = [] \<or> trim (variableValue s) = [] \<or>
         length (selectedRepos s) = 0 \<or> length (selectedEnvironments s) = 0
      then s
      else
        let totalOperations = length (selectedRepos s) * length (selectedEnvironments s) in
        finishLoop (js ''Bulk Variable Creation Complete'') (js ''variable'') totalOperations
          (forTargets (variableTarget net P (variableName s) (variableValue s) totalOperations)
             (selectedRepos s) (selectedEnvironments s) (startLoop s))
          s)"

text \<open>
  The loop state after the first \<open>k\<close> iterations of the nested loops (the pairs of
  \<open>List.product\<close> are in the order of the loops, see \<open>forTargets_product\<close>), and the
  repository and environment of a result.
\<close>

definition reached ::
  "(jsstring \<Rightarrow> jsstring \<Rightarrow> BulkLoop \<Rightarrow> BulkLoop) \<Rightarrow> jsstring list \<Rightarrow> jsstring list \<Rightarrow> nat \<Rightarrow>
   BulkLoop \<Rightarrow> BulkLoop" where
  "reached target repos envs k l = fold (\<lambda>(r, e). target r e) (take k (List.product repos envs)) l"

definition target_of :: "OperationResult \<Rightarrow> jsstring \<times> jsstring" where
  "target_of x = (repo x, environment x)"

text \<open>A fetch succeeded: it resolved with a status in the range 200 to 299.\<close>

fun succeeded :: "outcome \<Rightarrow> bool" where
  "succeeded (Response st b) = (200 \<le> st \<and> st \<le> 299)"
| "succeeded (Throws e) = False"

text \<open>The writes of a secret or a variable.\<close>

fun is_write :: "request \<Rightarrow> bool" where
  "is_write (PutSecret org r e n v) = True"
| "is_write (PostVariable org r e n v) = True"
| "is_write q = False"

text \<open>The loop states of the two operations after \<open>k\<close> targets.\<close>

definition secretsReached :: "network \<Rightarrow> BulkOperationsProps \<Rightarrow> BulkOperations \<Rightarrow> nat \<Rightarrow> BulkLoop" where
  "secretsReached net P s k =
     reached (secretTarget net P (secretName s) (secretValue s)
                (length (selectedRepos s) * length (selectedEnvironments s)))
       (selectedRepos s) (selectedEnvironments s) k (startLoop s)"

definition variablesReached :: "network \<Rightarrow> BulkOperationsProps \<Rightarrow> BulkOperations \<Rightarrow> nat \<Rightarrow> BulkLoop" where
  "variablesReached net P s k =
     reached (variableTarget net P (variableName s) (variableValue s)
                (length (selectedRepos s) * length (selectedEnvironments s)))
       (selectedRepos s) (selectedEnvironments s) k (startLoop s)"

text \<open>
  What the two loop bodies have in common: each pushes one result for its repository and
  environment, with an error when it is a failure, counts one more completed operation and
  sets the progress.
\<close>

definition target_body :: "nat \<Rightarrow> (jsstring \<Rightarrow> jsstring \<Rightarrow> BulkLoop \<Rightarrow> BulkLoop) \<Rightarrow> bool" where
  "target_body t f \<longleftrightarrow>
     (\<forall>r e l.
        (\<exists>x. repo x = r \<and> environment x = e \<and> (\<not> success x \<longrightarrow> error x \<noteq> None) \<and>
             operationResults (f r e l) = operationResults l @ [x]) \<and>
        completedOperations (f r e l) = completedOperations l + 1 \<and>
        progressSet (f r e l) = progressSet l @ [percent (completedOperations l + 1) t])"

text \<open>
  The invariants of a scan, for the proof. \<open>placed ps m\<close>: the keys of the map are
  distinct, and the locations of every entry are distinct places among \<open>ps\<close>, the pairs
  scanned so far. \<open>placing ps p N m\<close>: the same while the names found at the pair
  \<open>p\<close> are added, \<open>N\<close> being the names added so far.
\<close>

definition placed :: "(jsstring \<times> jsstring) list \<Rightarrow> (jsstring \<times> 'l Location_scheme Entry) list \<Rightarrow> bool" where
  "placed ps m \<longleftrightarrow>
     distinct (map fst m) \<and>
     (\<forall>(k, e) \<in> set m. distinct (map place (locations e)) \<and> set (map place (locations e)) \<subseteq> set ps)"

definition placing ::
  "(jsstring \<times> jsstring) list \<Rightarrow> jsstring \<times> jsstring \<Rightarrow> jsstring set \<Rightarrow>
   (jsstring \<times> 'l Location_scheme Entry) list \<Rightarrow> bool" where
  "placing ps p N m \<longleftrightarrow>
     distinct (map fst m) \<and>
     (\<forall>(k, e) \<in> set m.
        distinct (map place (locations e)) \<and> set (map place (locations e)) \<subseteq> insert p (set ps) \<and>
        (p \<in> set (map place (locations e)) \<longrightarrow> k \<in> N))"

text \<open>A platform whose listings report each name at most once.\<close>

definition reportsOnce :: "network \<Rightarrow> bool" where
  "reportsOnce net \<longleftrightarrow>
     (\<forall>tr st ss vs. net tr = Response st (Object ss vs) \<longrightarrow> distinct ss \<and> distinct (map fst vs))"




section \<open>Sample inputs\<close>

text \<open>
  A dialog on two repositories and two environments, and three platforms: one that accepts
  every request, one that cannot be reached, and one where the environment \<open>staging\<close> of
  \<open>api\<close> does not exist and cannot be created (status 422).
\<close>

definition sampleProps :: BulkOperationsProps where
  "sampleProps =
     \<lparr>organization = js ''acme'', onEnvironmentCreated = Some (\<lambda>tr. None),
      invalidCharacterMessage = js ''Invalid character''\<rparr>"

definition sampleDialog :: BulkOperations where
  "sampleDialog =
     \<lparr>selectedRepos = [js ''api'', js ''web''],
      selectedEnvironments = [js ''production'', js ''staging''],
      secretName = js ''TOKEN'', secretValue = js ''hunter2'',
      variableName = js ''REGION'', variableValue = js ''eu'',
      isProcessing = False, progress = [], results = [], toasts = [], requests = [],
      callbacks = 0\<rparr>"

definition alwaysOk :: network where
  "alwaysOk tr = Response 200 (Object [] [])"

definition unreachable :: network where
  "unreachable tr = Throws (Error (js ''Failed to fetch''))"

fun stagingAnswer :: "request \<Rightarrow> outcome" where
  "stagingAnswer (GetEnvironment org r e) =
     (if r = js ''api'' \<and> e = js ''staging'' then Response 404 (Object [] [])
      else Response 200 (Object [] []))"
| "stagingAnswer (PutEnvironment org r e) = Response 422 (Object [] [])"
| "stagingAnswer q = Response 201 (Object [] [])"

definition stagingUnavailable :: network where
  "stagingUnavailable tr = stagingAnswer (last tr)"

text \<open>
  Two more platforms: one where no environment exists yet and every create and write is
  accepted, and one that refuses every request with status 403.
\<close>

fun missingAnswer :: "request \<Rightarrow> outcome" where
  "missingAnswer (GetEnvironment org r e) = Response 404 (Object [] [])"
| "missingAnswer q = Response 201 (Object [] [])"

definition missingEnvironments :: network where
  "missingEnvironments tr = missingAnswer (last tr)"

definition forbidden :: network where
  "forbidden tr = Response 403 (Object [] [])"

text \<open>
  The properties given by a parent whose callback throws. A platform where every
  environment exists and the writes to \<open>web\<close> are refused with status 403, and one that
  moreover drops the connection at every write to an environment \<open>staging\<close> of another
  repository.
\<close>

definition throwingProps :: BulkOperationsProps where
  "throwingProps =
     sampleProps\<lparr>onEnvironmentCreated := Some (\<lambda>tr. Some (Error (js ''refresh failed'')))\<rparr>"



fun flakyAnswer :: "request \<Rightarrow> outcome" where
  "flakyAnswer (PutSecret org r e n v) =
     (if r = js ''web'' then Response 403 (Object [] [])
      else if e = js ''staging'' then Throws (Error (js ''Failed to fetch''))
      else Response 201 (Object [] []))"
| "flakyAnswer (PostVariable org r e n v) =
     (if r = js ''web'' then Response 403 (Object [] [])
      else if e = js ''staging'' then Throws (Error (js ''Failed to fetch''))
      else Response 201 (Object [] []))"
| "flakyAnswer q = Response 200 (Object [] [])"

definition flaky :: network where
  "flaky tr = flakyAnswer (last tr)"

text \<open>
  The sample dialog with a secret name of two spaces, and with no repository selected.
\<close>

definition blankName :: BulkOperations where
  "blankName = sampleDialog\<lparr>secretName := js ''  ''\<rparr>"

definition noRepos :: BulkOperations where
  "noRepos = sampleDialog\<lparr>selectedRepos := []\<rparr>"




text \<open>
  A scan of two repositories where the secret \<open>TOKEN\<close> exists in \<open>production\<close> of
  \<open>api\<close> and in \<open>staging\<close> of \<open>web\<close> only, and there are no variables.
\<close>

definition sampleRepositories :: GlobalSecretsListProps where
  "sampleRepositories =
     \<lparr>GlobalSecretsListProps.organization = js ''acme'',
      repositories =
        [\<lparr>Repository.name = js ''api'', full_name = js ''acme/api''\<rparr>,
         \<lparr>Repository.name = js ''web'', full_name = js ''acme/web''\<rparr>]\<rparr>"

definition emptyInventory :: GlobalSecretsList where
  "emptyInventory =
     \<lparr>secretsMap = [], variablesMap = [], GlobalSecretsList.loading = True,
      GlobalSecretsList.requests = []\<rparr>"

fun tokenAnswer :: "request \<Rightarrow> outcome" where
  "tokenAnswer (ListSecrets org r e) =
     (if (r = js ''api'' \<and> e = js ''production'') \<or> (r = js ''web'' \<and> e = js ''staging'')
      then Response 200 (Object [js ''TOKEN''] [])
      else Response 404 Unparseable)"
| "tokenAnswer q = Response 200 (Object [] [])"

definition tokenPlatform :: network where
  "tokenPlatform tr = tokenAnswer (last tr)"

definition tokenEntry :: SecretLocation where
  "tokenEntry =
     \<lparr>Entry.name = js ''TOKEN'',
      locations =
        [\<lparr>Location.repository = js ''api'', Location.environment = js ''production''\<rparr>,
         \<lparr>Location.repository = js ''web'', Location.environment = js ''staging''\<rparr>],
      missingIn =
        [\<lparr>Location.repository = js ''api'', Location.environment = js ''staging''\<rparr>,
         \<lparr>Location.repository = js ''api'', Location.environment = js ''development''\<rparr>,
         \<lparr>Location.repository = js ''api'', Location.environment = js ''preview''\<rparr>,
         \<lparr>Location.repository = js ''web'', Location.environment = js ''production''\<rparr>,
         \<lparr>Location.repository = js ''web'', Location.environment = js ''development''\<rparr>,
         \<lparr>Location.repository = js ''web'', Location.environment = js ''preview''\<rparr>]\<rparr>"

section \<open>Properties of the bulk operations\<close>

lemma forTargets_product:
  "forTargets f R E l = fold (\<lambda>(r, e). f r e) (List.product R E) l"
proof (induction R arbitrary: l)
  case Nil
  show ?case by (simp add: forTargets_def)
next
  case (Cons r R)
  have "fold (\<lambda>(r, e). f r e) (map (Pair r) E) l = fold (f r) E l"
    by (simp add: fold_map comp_def)
  with Cons show ?case by (simp add: forTargets_def)
qed

lemma completeOne_sel [simp]:
  "operationResults (completeOne t l) = operationResults l"
  "completedOperations (completeOne t l) = completedOperations l + 1"
  "progressSet (completeOne t l) = progressSet l @ [percent (completedOperations l + 1) t]"
  "issued (completeOne t l) = issued l"
  "notified (completeOne t l) = notified l"
  by (simp_all add: completeOne_def)

lemma pushResult_sel [simp]:
  "operationResults (pushResult x l) = operationResults l @ [x]"
  "completedOperations (pushResult x l) = completedOperations l"
  "progressSet (pushResult x l) = progressSet l"
  "issued (pushResult x l) = issued l"
  "notified (pushResult x l) = notified l"
  by (simp_all add: pushResult_def)

lemma ensured_sel [simp]:
  "operationResults (ensured tr c l) = operationResults l"
  "completedOperations (ensured tr c l) = completedOperations l"
  "progressSet (ensured tr c l) = progressSet l"
  "issued (ensured tr c l) = tr"
  "notified (ensured tr c l) = notified l + (if c then 1 else 0)"
  by (simp_all add: ensured_def)

lemma secretTarget_step:
  "\<exists>x. repo x = r \<and> environment x = e \<and> (\<not> success x \<longrightarrow> error x \<noteq> None) \<and>
       operationResults (secretTarget net P n v t r e l) = operationResults l @ [x]"
  "completedOperations (secretTarget net P n v t r e l) = completedOperations l + 1"
  "progressSet (secretTarget net P n v t r e l) = progressSet l @ [percent (completedOperations l + 1) t]"
  by (simp_all add: secretTarget_def split: prod.splits sum.splits outcome.splits)

lemma variableTarget_step:
  "\<exists>x. repo x = r \<and> environment x = e \<and> (\<not> success x \<longrightarrow> error x \<noteq> None) \<and>
       operationResults (variableTarget net P n v t r e l) = operationResults l @ [x]"
  "completedOperations (variableTarget net P n v t r e l) = completedOperations l + 1"
  "progressSet (variableTarget net P n v t r e l) = progressSet l @ [percent (completedOperations l + 1) t]"
  by (simp_all add: variableTarget_def split: prod.splits sum.splits outcome.splits)

lemma secretTarget_body: "target_body t (secretTarget net P n v t)"
  unfolding target_body_def by (intro allI conjI secretTarget_step)

lemma variableTarget_body: "target_body t (variableTarget net P n v t)"
  unfolding target_body_def by (intro allI conjI variableTarget_step)

lemma fold_targets_results:
  assumes "target_body t f"
  shows "map target_of (operationResults (fold (\<lambda>(r, e). f r e) ts l)) =
         map target_of (operationResults l) @ ts"
proof (induction ts arbitrary: l)
  case Nil
  show ?case by simp
next
  case (Cons p ts)
  obtain r e where p: "p = (r, e)" by (cases p)
  from assms obtain x where "repo x = r" "environment x = e"
    "operationResults (f r e l) = operationResults l @ [x]"
    unfolding target_body_def by blast
  then have "map target_of (operationResults (f r e l)) = map target_of (operationResults l) @ [p]"
    by (simp add: target_of_def p)
  with Cons [of "f r e l"] show ?case by (simp add: p)
qed

lemma fold_targets_errors:
  assumes "target_body t f"
    and "\<forall>x \<in> set (operationResults l). \<not> success x \<longrightarrow> error x \<noteq> None"
  shows "\<forall>x \<in> set (operationResults (fold (\<lambda>(r, e). f r e) ts l)). \<not> success x \<longrightarrow> error x \<noteq> None"
  using assms(2)
proof (induction ts arbitrary: l)
  case Nil
  then show ?case by simp
next
  case (Cons p ts)
  obtain r e where p: "p = (r, e)" by (cases p)
  from assms(1) obtain x where "\<not> success x \<longrightarrow> error x \<noteq> None"
    "operationResults (f r e l) = operationResults l @ [x]"
    unfolding target_body_def by blast
  with Cons.prems have "\<forall>x \<in> set (operationResults (f r e l)). \<not> success x \<longrightarrow> error x \<noteq> None"
    by auto
  from Cons.IH [OF this] show ?case by (simp add: p)
qed


lemma trim_empty_iff: "trim s = [] \<longleftrightarrow> (\<forall>c \<in> set s. is_ws c)"
proof -
  have "(\<forall>x \<in> set (dropWhile is_ws s). is_ws x) \<longleftrightarrow> dropWhile is_ws s = []"
  proof
    assume h: "\<forall>x \<in> set (dropWhile is_ws s). is_ws x"
    show "dropWhile is_ws s = []"
    proof (rule ccontr)
      assume n: "dropWhile is_ws s \<noteq> []"
      then have "\<not> is_ws (hd (dropWhile is_ws s))" by (rule hd_dropWhile)
      moreover have "hd (dropWhile is_ws s) \<in> set (dropWhile is_ws s)" using n by (rule hd_in_set)
      ultimately show False using h by blast
    qed
  next
    assume "dropWhile is_ws s = []"
    then show "\<forall>x \<in> set (dropWhile is_ws s). is_ws x" by (metis empty_iff empty_set)
  qed
  then show ?thesis
    by (simp add: trim_def dropWhile_eq_Nil_conv)
qed

lemma finishLoop_sel [simp]:
  "results (finishLoop a b t l s) = operationResults l"
  "progress (finishLoop a b t l s) = progressSet l"
  "requests (finishLoop a b t l s) = issued l"
  "callbacks (finishLoop a b t l s) = notified l"
  "isProcessing (finishLoop a b t l s) = False"
  "toasts (finishLoop a b t l s) = toasts s @ [createdToast a b (length (filter success (operationResults l))) t]"
  by (simp_all add: finishLoop_def)

lemma startLoop_sel [simp]:
  "operationResults (startLoop s) = []"
  "completedOperations (startLoop s) = 0"
  "progressSet (startLoop s) = progress s @ [0]"
  "issued (startLoop s) = requests s"
  "notified (startLoop s) = callbacks s"
  by (simp_all add: startLoop_def)

lemma secrets_run:
  assumes "trim (secretName s) \<noteq> []" "trim (secretValue s) \<noteq> []"
    "selectedRepos s \<noteq> []" "selectedEnvironments s \<noteq> []"
  shows "bulkCreateSecrets net P s =
     finishLoop (js ''Bulk Secret Creation Complete'') (js ''secret'')
       (length (selectedRepos s) * length (selectedEnvironments s))
       (fold (\<lambda>(r, e). secretTarget net P (secretName s) (secretValue s)
                (length (selectedRepos s) * length (selectedEnvironments s)) r e)
          (List.product (selectedRepos s) (selectedEnvironments s)) (startLoop s)) s"
  using assms by (simp add: bulkCreateSecrets_def forTargets_product Let_def)

lemma variables_run:
  assumes "trim (variableName s) \<noteq> []" "trim (variableValue s) \<noteq> []"
    "selectedRepos s \<noteq> []" "selectedEnvironments s \<noteq> []"
  shows "bulkCreateVariables net P s =
     finishLoop (js ''Bulk Variable Creation Complete'') (js ''variable'')
       (length (selectedRepos s) * length (selectedEnvironments s))
       (fold (\<lambda>(r, e). variableTarget net P (variableName s) (variableValue s)
                (length (selectedRepos s) * length (selectedEnvironments s)) r e)
          (List.product (selectedRepos s) (selectedEnvironments s)) (startLoop s)) s"
  using assms by (simp add: bulkCreateVariables_def forTargets_product Let_def)

lemma secrets_targets:
  assumes "trim (secretName s) \<noteq> []" "trim (secretValue s) \<noteq> []"
    "selectedRepos s \<noteq> []" "selectedEnvironments s \<noteq> []"
  shows "map target_of (results (bulkCreateSecrets net P s)) =
         List.product (selectedRepos s) (selectedEnvironments s)"
  by (simp add: secrets_run [OF assms] fold_targets_results [OF secretTarget_body])

lemma variables_targets:
  assumes "trim (variableName s) \<noteq> []" "trim (variableValue s) \<noteq> []"
    "selectedRepos s \<noteq> []" "selectedEnvironments s \<noteq> []"
  shows "map target_of (results (bulkCreateVariables net P s)) =
         List.product (selectedRepos s) (selectedEnvironments s)"
  by (simp add: variables_run [OF assms] fold_targets_results [OF variableTarget_body])

lemma reached_Suc:
  assumes "k < length R * length E" and "List.product R E ! k = (r, e)"
  shows "reached f R E (Suc k) l = f r e (reached f R E k l)"
proof -
  have "take (Suc k) (List.product R E) = take k (List.product R E) @ [(r, e)]"
    using assms by (simp add: take_Suc_conv_app_nth)
  then show ?thesis by (simp add: reached_def)
qed

lemma reached_all: "reached f R E (length R * length E) l = forTargets f R E l"
  by (simp add: reached_def forTargets_product)

lemma reached_rest:
  "forTargets f R E l = fold (\<lambda>(r, e). f r e) (drop k (List.product R E)) (reached f R E k l)"
proof -
  have "fold (\<lambda>(r, e). f r e) (take k (List.product R E) @ drop k (List.product R E)) l =
        fold (\<lambda>(r, e). f r e) (drop k (List.product R E)) (reached f R E k l)"
    unfolding fold_append by (simp add: reached_def)
  then show ?thesis by (simp add: forTargets_product)
qed

lemma fold_targets_prefix:
  assumes "target_body t f"
  shows "\<exists>more. operationResults (fold (\<lambda>(r, e). f r e) ts l) = operationResults l @ more"
proof (induction ts arbitrary: l)
  case Nil
  show ?case by simp
next
  case (Cons p ts)
  obtain r e where p: "p = (r, e)" by (cases p)
  from assms obtain x where x: "operationResults (f r e l) = operationResults l @ [x]"
    unfolding target_body_def by blast
  from Cons [of "f r e l"] obtain more where
    "operationResults (fold (\<lambda>(r, e). f r e) ts (f r e l)) = operationResults (f r e l) @ more"
    by blast
  with x show ?case by (simp add: p)
qed

lemma reached_results_length:
  assumes "target_body t f" and "k \<le> length R * length E"
  shows "length (operationResults (reached f R E k l)) = length (operationResults l) + k"
proof -
  have "length (map target_of (operationResults (reached f R E k l))) =
        length (map target_of (operationResults l) @ take k (List.product R E))"
    unfolding reached_def fold_targets_results [OF assms(1)] ..
  with assms(2) show ?thesis by simp
qed

lemma product_index:
  assumes "i < length R" and "j < length E"
  shows "i * length E + j < length R * length E"
    and "List.product R E ! (i * length E + j) = (R ! i, E ! j)"
proof -
  have "Suc i * length E \<le> length R * length E"
    using assms(1) by (intro mult_le_mono1) simp
  with assms(2) show lt: "i * length E + j < length R * length E" by simp
  have ne: "length E \<noteq> 0" using assms(2) by (cases E) simp_all
  have "(i * length E + j) div length E = i" and "(i * length E + j) mod length E = j"
    using assms(2) by (simp_all add: div_mult_self3 [OF ne])
  then show "List.product R E ! (i * length E + j) = (R ! i, E ! j)"
    by (simp add: product_nth [OF lt])
qed





lemma secretsReached_Suc:
  assumes "k < length (selectedRepos s) * length (selectedEnvironments s)"
    and "List.product (selectedRepos s) (selectedEnvironments s) ! k = (r, e)"
  shows "secretsReached net P s (Suc k) =
     secretTarget net P (secretName s) (secretValue s)
       (length (selectedRepos s) * length (selectedEnvironments s)) r e (secretsReached net P s k)"
  unfolding secretsReached_def by (rule reached_Suc [OF assms])

lemma variablesReached_Suc:
  assumes "k < length (selectedRepos s) * length (selectedEnvironments s)"
    and "List.product (selectedRepos s) (selectedEnvironments s) ! k = (r, e)"
  shows "variablesReached net P s (Suc k) =
     variableTarget net P (variableName s) (variableValue s)
       (length (selectedRepos s) * length (selectedEnvironments s)) r e (variablesReached net P s k)"
  unfolding variablesReached_def by (rule reached_Suc [OF assms])






lemma createEnvironmentIfNeeded_log:
  "\<exists>ws. fst (snd (createEnvironmentIfNeeded net P r e tr)) = tr @ ws \<and> (\<forall>q \<in> set ws. \<not> is_write q)"
  by (auto simp: createEnvironmentIfNeeded_def fetch_def split: outcome.splits option.splits)

lemma secretTarget_unavailable:
  assumes "\<not> fst (createEnvironmentIfNeeded net P r e (issued l))"
  shows "operationResults (secretTarget net P n v t r e l) =
           operationResults l @ [\<lparr>repo = r, environment = e, success = False,
              error = Some (js ''Failed to create/access environment'')\<rparr>]"
    and "issued (secretTarget net P n v t r e l) = fst (snd (createEnvironmentIfNeeded net P r e (issued l)))"
  using assms by (cases "createEnvironmentIfNeeded net P r e (issued l)", simp_all add: secretTarget_def)+

lemma variableTarget_unavailable:
  assumes "\<not> fst (createEnvironmentIfNeeded net P r e (issued l))"
  shows "operationResults (variableTarget net P n v t r e l) =
           operationResults l @ [\<lparr>repo = r, environment = e, success = False,
              error = Some (js ''Failed to create/access environment'')\<rparr>]"
    and "issued (variableTarget net P n v t r e l) = fst (snd (createEnvironmentIfNeeded net P r e (issued l)))"
  using assms by (cases "createEnvironmentIfNeeded net P r e (issued l)", simp_all add: variableTarget_def)+

lemma reached_result_nth:
  assumes "target_body t f" and "k < length R * length E"
    and "operationResults (reached f R E (Suc k) (startLoop s)) =
         operationResults (reached f R E k (startLoop s)) @ [x]"
  shows "operationResults (forTargets f R E (startLoop s)) ! k = x"
proof -
  from fold_targets_prefix [OF assms(1)] obtain more where
    "operationResults (forTargets f R E (startLoop s)) =
     operationResults (reached f R E (Suc k) (startLoop s)) @ more"
    unfolding reached_rest [of f R E "startLoop s" "Suc k"] by blast
  moreover have "length (operationResults (reached f R E k (startLoop s))) = k"
    using reached_results_length [OF assms(1), of k R E "startLoop s"] assms(2) by simp
  ultimately show ?thesis by (simp add: assms(3) nth_append)
qed





section \<open>The round trip of the base64 functions\<close>






















section \<open>Properties of the environment manager\<close>






lemma ManagerLoop_sel [simp]:
  "sent (l\<lparr>successCount := c, sent := tr\<rparr>) = tr"
  "successCount (l\<lparr>successCount := c, sent := tr\<rparr>) = c"
  by simp_all













section \<open>Properties of the inventory scan\<close>

lemma split_at_first:
  "c \<notin> set xs \<Longrightarrow> c \<notin> set ys \<Longrightarrow> xs @ c # as = ys @ c # bs \<Longrightarrow> xs = ys \<and> as = bs"
proof (induction xs arbitrary: ys)
  case Nil
  then show ?case by (cases ys) auto
next
  case (Cons x xs)
  then show ?case by (cases ys) auto
qed

lemma colon: "js '':'' = [0x3A]"
  by (simp add: js_def)

lemma common_no_colon: "\<forall>e \<in> set COMMON_ENVIRONMENTS. 0x3A \<notin> set e"
  by (simp add: COMMON_ENVIRONMENTS_def js_def)

lemma distinct_common: "distinct COMMON_ENVIRONMENTS"
  by (simp add: COMMON_ENVIRONMENTS_def js_def)

lemma key_place:
  assumes "0x3A \<notin> set (Location.environment a)" and "0x3A \<notin> set (Location.environment b)"
    and "key a = key b"
  shows "place a = place b"
proof -
  from assms(3) have "rev (key a) = rev (key b)" by simp
  then have "rev (Location.environment a) @ 0x3A # rev (Location.repository a) =
      rev (Location.environment b) @ 0x3A # rev (Location.repository b)"
    by (simp add: key_def colon)
  from split_at_first [OF _ _ this] assms(1,2)
  have "rev (Location.environment a) = rev (Location.environment b) \<and>
      rev (Location.repository a) = rev (Location.repository b)"
    by simp
  then show ?thesis by (simp add: place_def)
qed

lemma place_key: "place a = place b \<Longrightarrow> key a = key b"
  by (simp add: place_def key_def)

lemma mapSet_new: "k \<notin> set (map fst m) \<Longrightarrow> mapSet k v m = m @ [(k, v)]"
  by (induction m) auto

lemma pushLocation_keys: "map fst (pushLocation k loc m) = map fst m"
  by (induction m) (auto simp: pushLocation_def)

lemma pushLocation_set:
  "set (pushLocation k loc m) =
     (\<lambda>(k', e). if k' = k then (k', e\<lparr>locations := locations e @ [loc]\<rparr>) else (k', e)) ` set m"
  by (simp add: pushLocation_def)


lemma placed_placing: "placed ps m \<Longrightarrow> p \<notin> set ps \<Longrightarrow> placing ps p {} m"
  unfolding placed_def placing_def by fastforce

lemma placing_placed: "placing ps p N m \<Longrightarrow> placed (ps @ [p]) m"
  unfolding placed_def placing_def by fastforce

lemma placed_mono: "placed ps m \<Longrightarrow> placed (ps @ [p]) m"
  unfolding placed_def by fastforce

lemma placing_add:
  fixes m :: "(jsstring \<times> 'l Location_scheme Entry) list"
  assumes inv: "placing ps p N m" and new: "n \<notin> N" and loc: "place loc = p"
  shows "placing ps p (insert n N)
     (pushLocation n loc
        (if \<not> mapHas n m then mapSet n \<lparr>name = n, locations = [], missingIn = []\<rparr> m else m))"
proof -
  let ?m1 = "if \<not> mapHas n m then mapSet n \<lparr>name = n, locations = [], missingIn = []\<rparr> m else m"
  have m1: "placing ps p N ?m1"
    using inv by (auto simp: placing_def mapHas_def mapSet_new)
  show ?thesis
    unfolding placing_def
  proof (intro conjI ballI)
    show "distinct (map fst (pushLocation n loc ?m1))"
      using m1 by (simp only: pushLocation_keys placing_def)
  next
    fix x
    assume "x \<in> set (pushLocation n loc ?m1)"
    then obtain k e where ke: "(k, e) \<in> set ?m1"
      and x: "x = (if k = n then (k, e\<lparr>locations := locations e @ [loc]\<rparr>) else (k, e))"
      unfolding pushLocation_set by auto
    from m1 have "\<forall>(k, e) \<in> set ?m1.
        distinct (map place (locations e)) \<and> set (map place (locations e)) \<subseteq> insert p (set ps) \<and>
        (p \<in> set (map place (locations e)) \<longrightarrow> k \<in> N)"
      unfolding placing_def by (rule conjunct2)
    from bspec [OF this ke] have e: "distinct (map place (locations e))"
      "set (map place (locations e)) \<subseteq> insert p (set ps)"
      "p \<in> set (map place (locations e)) \<longrightarrow> k \<in> N"
      by simp_all
    show "case x of (k, e) \<Rightarrow>
        distinct (map place (locations e)) \<and> set (map place (locations e)) \<subseteq> insert p (set ps) \<and>
        (p \<in> set (map place (locations e)) \<longrightarrow> k \<in> insert n N)"
    proof (cases "k = n")
      case True
      with e(3) new have "p \<notin> set (map place (locations e))" by auto
      with e(1,2) show ?thesis by (simp add: x True loc)
    next
      case False
      with e show ?thesis by (simp add: x)
    qed
  qed
qed

lemma placing_fold:
  fixes m :: "(jsstring \<times> 'l Location_scheme Entry) list"
  assumes step: "\<And>x m. f x m =
      pushLocation (kf x) (lf x)
        (if \<not> mapHas (kf x) m then mapSet (kf x) \<lparr>name = kf x, locations = [], missingIn = []\<rparr> m else m)"
    and loc: "\<And>x. place (lf x) = p"
  shows "placing ps p N m \<Longrightarrow> distinct (map kf xs) \<Longrightarrow> set (map kf xs) \<inter> N = {} \<Longrightarrow>
     placing ps p (N \<union> set (map kf xs)) (fold f xs m)"
proof (induction xs arbitrary: m N)
  case Nil
  then show ?case by simp
next
  case (Cons x xs)
  from Cons.prems have n: "kf x \<notin> N" by auto
  have "placing ps p (insert (kf x) N) (f x m)"
    unfolding step by (rule placing_add [OF Cons.prems(1) n loc])
  moreover have "distinct (map kf xs)" "set (map kf xs) \<inter> insert (kf x) N = {}"
    using Cons.prems by auto
  ultimately have "placing ps p (insert (kf x) N \<union> set (map kf xs)) (fold f xs (f x m))"
    by (rule Cons.IH)
  then show ?case by simp
qed

lemma placed_fold:
  fixes m :: "(jsstring \<times> 'l Location_scheme Entry) list"
  assumes step: "\<And>x m. f x m =
      pushLocation (kf x) (lf x)
        (if \<not> mapHas (kf x) m then mapSet (kf x) \<lparr>name = kf x, locations = [], missingIn = []\<rparr> m else m)"
    and loc: "\<And>x. place (lf x) = p"
    and "placed ps m" and "p \<notin> set ps" and "distinct (map kf xs)"
  shows "placed (ps @ [p]) (fold f xs m)"
proof -
  have "placing ps p ({} \<union> set (map kf xs)) (fold f xs m)"
    by (rule placing_fold [of f kf lf, OF step loc placed_placing [OF assms(3,4)] assms(5)]) simp
  then show ?thesis by (rule placing_placed)
qed

lemma scanSecrets_maps:
  "newVariablesMap (scanSecrets net P r e sc) = newVariablesMap sc"
  "newSecretsMap (scanSecrets net P r e sc) = newSecretsMap sc \<or>
   (\<exists>tr st ss vs. net tr = Response st (Object ss vs) \<and>
      newSecretsMap (scanSecrets net P r e sc) = fold (addSecret r e) ss (newSecretsMap sc))"
  by (auto simp: scanSecrets_def fetch_def split: outcome.splits body.splits)

lemma scanVariables_maps:
  "newSecretsMap (scanVariables net P r e sc) = newSecretsMap sc"
  "newVariablesMap (scanVariables net P r e sc) = newVariablesMap sc \<or>
   (\<exists>tr st ss vs. net tr = Response st (Object ss vs) \<and>
      newVariablesMap (scanVariables net P r e sc) = fold (addVariable r e) vs (newVariablesMap sc))"
  by (auto simp: scanVariables_def fetch_def split: outcome.splits body.splits)

lemma addSecret_placed:
  assumes "placed ps m" and "(r, e) \<notin> set ps" and "distinct ss"
  shows "placed (ps @ [(r, e)]) (fold (addSecret r e) ss m)"
proof (rule placed_fold [where kf = "\<lambda>x. x" and lf = "\<lambda>x. \<lparr>Location.repository = r, Location.environment = e\<rparr>"])
  show "\<And>x m. addSecret r e x m =
      pushLocation x \<lparr>Location.repository = r, Location.environment = e\<rparr>
        (if \<not> mapHas x m then mapSet x \<lparr>Entry.name = x, locations = [], missingIn = []\<rparr> m else m)"
    by (simp add: addSecret_def)
  show "\<And>x. place \<lparr>Location.repository = r, Location.environment = e\<rparr> = (r, e)"
    by (simp add: place_def)
  show "placed ps m" "(r, e) \<notin> set ps" by fact+
  show "distinct (map (\<lambda>x. x) ss)" using assms(3) by simp
qed

lemma addVariable_placed:
  assumes "placed ps m" and "(r, e) \<notin> set ps" and "distinct (map fst vs)"
  shows "placed (ps @ [(r, e)]) (fold (addVariable r e) vs m)"
proof (rule placed_fold [where kf = fst
      and lf = "\<lambda>x. \<lparr>Location.repository = r, Location.environment = e, val = snd x\<rparr>"])
  show "\<And>x m. addVariable r e x m =
      pushLocation (fst x) \<lparr>Location.repository = r, Location.environment = e, val = snd x\<rparr>
        (if \<not> mapHas (fst x) m then mapSet (fst x) \<lparr>Entry.name = fst x, locations = [], missingIn = []\<rparr> m
         else m)"
    by (simp add: addVariable_def)
  show "\<And>x. place \<lparr>Location.repository = r, Location.environment = e, val = snd x\<rparr> = (r, e)"
    by (simp add: place_def)
  show "placed ps m" "(r, e) \<notin> set ps" "distinct (map fst vs)" by fact+
qed

lemma scanPair_placed:
  assumes "reportsOnce net" and "placed ps (newSecretsMap sc)" and "placed ps (newVariablesMap sc)"
    and "(r, e) \<notin> set ps"
  shows "placed (ps @ [(r, e)]) (newSecretsMap (scanPair net P r e sc))"
    and "placed (ps @ [(r, e)]) (newVariablesMap (scanPair net P r e sc))"
proof -
  let ?s1 = "scanSecrets net P r e sc"
  have "placed (ps @ [(r, e)]) (newSecretsMap ?s1)"
    using scanSecrets_maps(2) [of net P r e sc]
  proof
    assume "newSecretsMap ?s1 = newSecretsMap sc"
    with assms(2) show ?thesis by (simp add: placed_mono)
  next
    assume "\<exists>tr st ss vs. net tr = Response st (Object ss vs) \<and>
      newSecretsMap ?s1 = fold (addSecret r e) ss (newSecretsMap sc)"
    then obtain tr st ss vs where "net tr = Response st (Object ss vs)"
      and eq: "newSecretsMap ?s1 = fold (addSecret r e) ss (newSecretsMap sc)" by blast
    with assms(1) have "distinct ss" unfolding reportsOnce_def by blast
    from addSecret_placed [OF assms(2,4) this] show ?thesis by (simp add: eq)
  qed
  then show "placed (ps @ [(r, e)]) (newSecretsMap (scanPair net P r e sc))"
    by (simp add: scanPair_def scanVariables_maps)
  have v1: "placed ps (newVariablesMap ?s1)"
    using assms(3) by (simp add: scanSecrets_maps)
  show "placed (ps @ [(r, e)]) (newVariablesMap (scanPair net P r e sc))"
    using scanVariables_maps(2) [of net P r e ?s1]
  proof
    assume "newVariablesMap (scanVariables net P r e ?s1) = newVariablesMap ?s1"
    with v1 show ?thesis by (simp add: scanPair_def placed_mono)
  next
    assume "\<exists>tr st ss vs. net tr = Response st (Object ss vs) \<and>
      newVariablesMap (scanVariables net P r e ?s1) = fold (addVariable r e) vs (newVariablesMap ?s1)"
    then obtain tr st ss vs where "net tr = Response st (Object ss vs)"
      and eq: "newVariablesMap (scanVariables net P r e ?s1) = fold (addVariable r e) vs (newVariablesMap ?s1)"
      by blast
    with assms(1) have "distinct (map fst vs)" unfolding reportsOnce_def by blast
    from addVariable_placed [OF v1 assms(4) this] show ?thesis by (simp add: scanPair_def eq)
  qed
qed

lemma scan_fold_placed:
  assumes "reportsOnce net"
  shows "distinct ts \<Longrightarrow> set ts \<inter> set ps = {} \<Longrightarrow>
     placed ps (newSecretsMap sc) \<Longrightarrow> placed ps (newVariablesMap sc) \<Longrightarrow>
     placed (ps @ ts) (newSecretsMap (fold (\<lambda>(r, e). scanPair net P r e) ts sc)) \<and>
     placed (ps @ ts) (newVariablesMap (fold (\<lambda>(r, e). scanPair net P r e) ts sc))"
proof (induction ts arbitrary: ps sc)
  case Nil
  then show ?case by simp
next
  case (Cons p ts)
  obtain r e where p: "p = (r, e)" by (cases p)
  from Cons.prems have np: "(r, e) \<notin> set ps" by (auto simp: p)
  note one = scanPair_placed [OF assms Cons.prems(3,4) np, of P]
  have "distinct ts" "set ts \<inter> set (ps @ [(r, e)]) = {}"
    using Cons.prems(1,2) by (auto simp: p)
  from Cons.IH [OF this one] show ?case by (simp add: p)
qed

lemma scan_grid:
  "fold (\<lambda>repo. fold (\<lambda>env. scanPair net P (Repository.name repo) env) COMMON_ENVIRONMENTS) repos sc =
   fold (\<lambda>(r, e). scanPair net P r e) (grid repos) sc"
proof (induction repos arbitrary: sc)
  case Nil
  show ?case by (simp add: grid_def)
next
  case (Cons repo repos)
  have "fold (\<lambda>(r, e). scanPair net P r e) (map (Pair (Repository.name repo)) COMMON_ENVIRONMENTS) sc =
      fold (\<lambda>env. scanPair net P (Repository.name repo) env) COMMON_ENVIRONMENTS sc"
    by (simp add: fold_map comp_def)
  with Cons [unfolded grid_def] show ?case by (simp add: grid_def)
qed

lemma distinct_grid: "distinct (map Repository.name repos) \<Longrightarrow> distinct (grid repos)"
  unfolding grid_def by (rule distinct_product) (simp_all add: distinct_common)

lemma place_allLocations: "map place (allLocations repos) = grid repos"
  by (induction repos) (simp_all add: allLocations_def grid_def place_def comp_def)

lemma grid_colon_free: "(r, e) \<in> set (grid repos) \<Longrightarrow> 0x3A \<notin> set e"
  using common_no_colon by (auto simp: grid_def)

lemma key_place_grid:
  assumes "place a \<in> set (grid repos)" and "place b \<in> set (grid repos)"
  shows "key a = key b \<longleftrightarrow> place a = place b"
proof
  assume k: "key a = key b"
  have "0x3A \<notin> set (Location.environment a)" "0x3A \<notin> set (Location.environment b)"
    using assms grid_colon_free [of "Location.repository a" "Location.environment a" repos]
      grid_colon_free [of "Location.repository b" "Location.environment b" repos]
    by (simp_all add: place_def)
  then show "place a = place b" using k by (rule key_place)
next
  assume "place a = place b"
  then show "key a = key b" by (rule place_key)
qed

lemma distinct_key:
  "distinct (map place xs) \<Longrightarrow> set (map place xs) \<subseteq> set (grid repos) \<Longrightarrow> distinct (map key xs)"
proof (induction xs)
  case Nil
  show ?case by simp
next
  case (Cons x xs)
  have "key x \<notin> set (map key xs)"
  proof
    assume "key x \<in> set (map key xs)"
    then obtain y where y: "y \<in> set xs" "key x = key y" by auto
    with Cons.prems(2) have "place x \<in> set (grid repos)" "place y \<in> set (grid repos)" by auto
    from key_place_grid [OF this] y(2) have "place x = place y" by simp
    with y(1) Cons.prems(1) show False by auto
  qed
  with Cons show ?case by simp
qed

lemma missing_partition:
  fixes xs :: "'l Location_scheme list"
  assumes d: "distinct (map place xs)" and sub: "set (map place xs) \<subseteq> set (grid repos)"
    and dn: "distinct (map Repository.name repos)"
    and ms: "ms = filter (\<lambda>loc. key loc \<notin> set (map key xs)) (allLocations repos)"
  shows "set (map place xs) \<union> set (map place ms) = set (grid repos)"
    and "set (map place xs) \<inter> set (map place ms) = {}"
    and "set (map key xs) \<inter> set (map key ms) = {}"
    and "distinct (map key xs)"
    and "distinct (map key ms)"
proof -
  have all: "set (map place (allLocations repos)) = set (grid repos)"
    by (simp only: place_allLocations)
  have in_grid: "place loc \<in> set (grid repos)" if "loc \<in> set (allLocations repos)" for loc
    using that all by auto
  have iff: "key loc \<in> set (map key xs) \<longleftrightarrow> place loc \<in> set (map place xs)"
    if "loc \<in> set (allLocations repos)" for loc
  proof
    assume "key loc \<in> set (map key xs)"
    then obtain y where y: "y \<in> set xs" "key loc = key y" by auto
    with sub have "place y \<in> set (grid repos)" by auto
    from key_place_grid [OF in_grid [OF that] this] y(2) have "place loc = place y" by simp
    with y(1) show "place loc \<in> set (map place xs)" by auto
  next
    assume "place loc \<in> set (map place xs)"
    then obtain y where y: "y \<in> set xs" "place loc = place y" by auto
    then have "key loc = key y" by (intro place_key)
    with y(1) show "key loc \<in> set (map key xs)" by auto
  qed
  have pm: "set (map place ms) = {p \<in> set (grid repos). p \<notin> set (map place xs)}"
  proof (intro set_eqI iffI)
    fix p
    assume "p \<in> set (map place ms)"
    then obtain loc where loc: "loc \<in> set ms" "p = place loc" by auto
    from loc(1) have l: "loc \<in> set (allLocations repos)" "key loc \<notin> set (map key xs)"
      by (simp_all add: ms)
    from iff [OF l(1)] l(2) have "place loc \<notin> set (map place xs)" by blast
    with in_grid [OF l(1)] show "p \<in> {p \<in> set (grid repos). p \<notin> set (map place xs)}"
      by (simp add: loc(2))
  next
    fix p
    assume "p \<in> {p \<in> set (grid repos). p \<notin> set (map place xs)}"
    then have p0: "p \<in> set (grid repos)" and p2: "p \<notin> set (map place xs)"
      by blast+
    from p0 have p1: "p \<in> set (map place (allLocations repos))"
      by (simp only: place_allLocations)
    note p = p1 p2
    from p(1) obtain loc where loc: "loc \<in> set (allLocations repos)" "p = place loc" by auto
    from iff [OF loc(1)] p(2) have "key loc \<notin> set (map key xs)" by (simp add: loc(2))
    with loc(1) have "loc \<in> set ms" by (simp add: ms)
    then show "p \<in> set (map place ms)" by (auto simp: loc(2))
  qed
  show "set (map place xs) \<union> set (map place ms) = set (grid repos)"
    unfolding pm using sub by auto
  show "set (map place xs) \<inter> set (map place ms) = {}"
    unfolding pm by auto
  show "set (map key xs) \<inter> set (map key ms) = {}"
  proof -
    have h: "\<forall>loc \<in> set ms. key loc \<notin> set (map key xs)" by (simp add: ms)
    show ?thesis
    proof (rule ccontr)
      assume "set (map key xs) \<inter> set (map key ms) \<noteq> {}"
      then obtain c where c: "c \<in> set (map key xs)" "c \<in> set (map key ms)" by blast
      from c(2) obtain loc where loc: "loc \<in> set ms" "c = key loc" by auto
      from bspec [OF h loc(1)] have "c \<notin> set (map key xs)" unfolding loc(2) .
      with c(1) show False by blast
    qed
  qed
  show "distinct (map key xs)" using d sub by (rule distinct_key)
  have "distinct (map key (allLocations repos))"
    by (rule distinct_key [of _ repos]) (simp_all only: place_allLocations distinct_grid [OF dn] subset_refl)
  then have "distinct (map key (filter (\<lambda>loc. key loc \<notin> set (map key xs)) (allLocations repos)))"
    by (rule distinct_map_filter)
  then show "distinct (map key ms)" by (simp only: ms)
qed

lemma setMissing_entry:
  assumes "(k, e) \<in> set (setMissing everywhere m)"
  shows "\<exists>e0. (k, e0) \<in> set m \<and> locations e = locations e0 \<and>
      missingIn e = filter (\<lambda>loc. key loc \<notin> set (map key (locations e0))) everywhere"
  using assms by (auto simp: setMissing_def)

lemma setMissing_partition:
  fixes m :: "(jsstring \<times> 'l Location_scheme Entry) list"
  assumes "placed (grid repos) m" and "distinct (map Repository.name repos)"
    and "(k, e) \<in> set (setMissing (allLocations repos) m)"
  shows "set (map place (locations e)) \<union> set (map place (missingIn e)) = set (grid repos) \<and>
     set (map place (locations e)) \<inter> set (map place (missingIn e)) = {} \<and>
     set (map key (locations e)) \<inter> set (map key (missingIn e)) = {} \<and>
     distinct (map key (locations e)) \<and> distinct (map key (missingIn e))"
proof -
  from setMissing_entry [OF assms(3)] obtain e0 where e0: "(k, e0) \<in> set m"
    "locations e = locations e0"
    "missingIn e = filter (\<lambda>loc. key loc \<notin> set (map key (locations e0))) (allLocations repos)"
    by blast
  from assms(1) have "\<forall>(k, e) \<in> set m. distinct (map place (locations e)) \<and>
      set (map place (locations e)) \<subseteq> set (grid repos)"
    unfolding placed_def by (rule conjunct2)
  from bspec [OF this e0(1)] have d: "distinct (map place (locations e0))"
    and s: "set (map place (locations e0)) \<subseteq> set (grid repos)" by simp_all
  from missing_partition [OF d s assms(2) e0(3)] show ?thesis
    unfolding e0(2) by blast
qed

lemma scan_placed:
  assumes "distinct (map Repository.name (repositories P))" and "reportsOnce net"
  shows "placed (grid (repositories P))
      (newSecretsMap
        (fold (\<lambda>repo. fold (\<lambda>env. scanPair net P (Repository.name repo) env) COMMON_ENVIRONMENTS)
           (repositories P) \<lparr>newSecretsMap = [], newVariablesMap = [], asked = tr\<rparr>))"
    and "placed (grid (repositories P))
      (newVariablesMap
        (fold (\<lambda>repo. fold (\<lambda>env. scanPair net P (Repository.name repo) env) COMMON_ENVIRONMENTS)
           (repositories P) \<lparr>newSecretsMap = [], newVariablesMap = [], asked = tr\<rparr>))"
proof -
  let ?sc = "\<lparr>newSecretsMap = [], newVariablesMap = [], asked = tr\<rparr>"
  have "placed [] (newSecretsMap ?sc)" "placed [] (newVariablesMap ?sc)"
    by (simp_all add: placed_def)
  from scan_fold_placed [OF assms(2) distinct_grid [OF assms(1)] _ this, of P]
  show "placed (grid (repositories P))
      (newSecretsMap
        (fold (\<lambda>repo. fold (\<lambda>env. scanPair net P (Repository.name repo) env) COMMON_ENVIRONMENTS)
           (repositories P) ?sc))"
    and "placed (grid (repositories P))
      (newVariablesMap
        (fold (\<lambda>repo. fold (\<lambda>env. scanPair net P (Repository.name repo) env) COMMON_ENVIRONMENTS)
           (repositories P) ?sc))"
    by (simp_all add: scan_grid)
qed

text \<open>The sample dialog passes the operations' checks of their inputs.\<close>

lemma sample_valid:
  "trim (secretName sampleDialog) \<noteq> []" "trim (secretValue sampleDialog) \<noteq> []"
  "trim (variableName sampleDialog) \<noteq> []" "trim (variableValue sampleDialog) \<noteq> []"
  "selectedRepos sampleDialog \<noteq> []" "selectedEnvironments sampleDialog \<noteq> []"
  "distinct (selectedRepos sampleDialog)" "distinct (selectedEnvironments sampleDialog)"
  by (simp_all add: sampleDialog_def trim_def js_def is_ws_def)

text \<open>When the platform cannot be reached, every target fails at its environment.\<close>

lemma unreachable_results:
  "results (bulkCreateSecrets unreachable sampleProps sampleDialog) =
     [\<lparr>repo = js ''api'', environment = js ''production'', success = False,
        error = Some (js ''Failed to create/access environment'')\<rparr>,
      \<lparr>repo = js ''api'', environment = js ''staging'', success = False,
        error = Some (js ''Failed to create/access environment'')\<rparr>,
      \<lparr>repo = js ''web'', environment = js ''production'', success = False,
        error = Some (js ''Failed to create/access environment'')\<rparr>,
      \<lparr>repo = js ''web'', environment = js ''staging'', success = False,
        error = Some (js ''Failed to create/access environment'')\<rparr>]"
  by (simp add: bulkCreateSecrets_def sampleDialog_def sample_valid forTargets_def secretTarget_def
      createEnvironmentIfNeeded_def fetch_def unreachable_def startLoop_def finishLoop_def
      completeOne_def pushResult_def ensured_def Let_def trim_def js_def is_ws_def)


text \<open>The sample run on the platform where \<open>staging\<close> of \<open>api\<close> is unavailable.\<close>

lemma sample_first_target:
  "issued (secretsReached stagingUnavailable sampleProps sampleDialog (Suc 0)) =
     [GetEnvironment (js ''acme'') (js ''api'') (js ''production''),
      PutSecret (js ''acme'') (js ''api'') (js ''production'') (js ''TOKEN'') (js ''aHVudGVyMg=='')]"
  "issued (variablesReached stagingUnavailable sampleProps sampleDialog (Suc 0)) =
     [GetEnvironment (js ''acme'') (js ''api'') (js ''production''),
      PostVariable (js ''acme'') (js ''api'') (js ''production'') (js ''REGION'') (js ''eu'')]"
  by (simp_all add: secretsReached_def variablesReached_def reached_def sampleDialog_def sampleProps_def
      secretTarget_def variableTarget_def createEnvironmentIfNeeded_def fetch_def stagingUnavailable_def
      startLoop_def completeOne_def pushResult_def ensured_def btoa_def alphabet_def pad_def js_def ok_def)

lemma sample_staging_fails:
  "\<not> fst (createEnvironmentIfNeeded stagingUnavailable sampleProps (js ''api'') (js ''staging'') (tr @ [q]))"
  by (simp add: createEnvironmentIfNeeded_def fetch_def stagingUnavailable_def ok_def sampleProps_def)

lemma sample_staging_log:
  "fst (snd (createEnvironmentIfNeeded stagingUnavailable sampleProps (js ''api'') (js ''staging'') tr)) =
     tr @ [GetEnvironment (js ''acme'') (js ''api'') (js ''staging''),
           PutEnvironment (js ''acme'') (js ''api'') (js ''staging'')]"
  by (simp add: createEnvironmentIfNeeded_def fetch_def stagingUnavailable_def ok_def sampleProps_def)




text \<open>The sample scan: its one entry, its platform and its repositories.\<close>

lemma sample_scan:
  "secretsMap (fetchAllSecretsAndVariables tokenPlatform sampleRepositories emptyInventory) =
     [(js ''TOKEN'', tokenEntry)]"
  by (simp add: fetchAllSecretsAndVariables_def scanPair_def scanSecrets_def scanVariables_def fetch_def
      tokenPlatform_def sampleRepositories_def emptyInventory_def COMMON_ENVIRONMENTS_def addSecret_def
      mapHas_def pushLocation_def setMissing_def allLocations_def key_def tokenEntry_def ok_def js_def)

lemma tokenPlatform_reportsOnce: "reportsOnce tokenPlatform"
  unfolding reportsOnce_def tokenPlatform_def
proof (intro allI impI)
  fix tr st ss vs
  assume "tokenAnswer (last tr) = Response st (Object ss vs)"
  then show "distinct ss \<and> distinct (map fst vs)"
    by (cases "last tr") (auto split: if_splits)
qed

lemma sample_repositories_distinct:
  "distinct (map Repository.name (repositories sampleRepositories))"
  by (simp add: sampleRepositories_def js_def)


text \<open>The sample run on the platform that refuses and drops writes.\<close>

lemma flaky_results:
  "results (bulkCreateSecrets flaky sampleProps sampleDialog) =
     [\<lparr>repo = js ''api'', environment = js ''production'', success = True, error = None\<rparr>,
      \<lparr>repo = js ''api'', environment = js ''staging'', success = False,
        error = Some (js ''Failed to fetch'')\<rparr>,
      \<lparr>repo = js ''web'', environment = js ''production'', success = False,
        error = Some (js ''HTTP 403'')\<rparr>,
      \<lparr>repo = js ''web'', environment = js ''staging'', success = False,
        error = Some (js ''HTTP 403'')\<rparr>]"
  "results (bulkCreateVariables flaky sampleProps sampleDialog) =
     [\<lparr>repo = js ''api'', environment = js ''production'', success = True, error = None\<rparr>,
      \<lparr>repo = js ''api'', environment = js ''staging'', success = False,
        error = Some (js ''Failed to fetch'')\<rparr>,
      \<lparr>repo = js ''web'', environment = js ''production'', success = False,
        error = Some (js ''HTTP 403'')\<rparr>,
      \<lparr>repo = js ''web'', environment = js ''staging'', success = False,
        error = Some (js ''HTTP 403'')\<rparr>]"
  by (simp_all add: bulkCreateSecrets_def bulkCreateVariables_def sampleDialog_def sampleProps_def
      forTargets_def secretTarget_def variableTarget_def
      createEnvironmentIfNeeded_def fetch_def flaky_def startLoop_def finishLoop_def
      completeOne_def pushResult_def ensured_def btoa_def alphabet_def pad_def ok_def Let_def
      trim_def js_def is_ws_def)

lemma flaky_second_target:
  "createEnvironmentIfNeeded flaky sampleProps (js ''api'') (js ''staging'')
     (issued (secretsReached flaky sampleProps sampleDialog (Suc 0))) =
     (True,
      [GetEnvironment (js ''acme'') (js ''api'') (js ''production''),
       PutSecret (js ''acme'') (js ''api'') (js ''production'') (js ''TOKEN'') (js ''aHVudGVyMg==''),
       GetEnvironment (js ''acme'') (js ''api'') (js ''staging'')], False)"
  "createEnvironmentIfNeeded flaky sampleProps (js ''api'') (js ''staging'')
     (issued (variablesReached flaky sampleProps sampleDialog (Suc 0))) =
     (True,
      [GetEnvironment (js ''acme'') (js ''api'') (js ''production''),
       PostVariable (js ''acme'') (js ''api'') (js ''production'') (js ''REGION'') (js ''eu''),
       GetEnvironment (js ''acme'') (js ''api'') (js ''staging'')], False)"
  by (simp_all add: secretsReached_def variablesReached_def reached_def sampleDialog_def sampleProps_def
      secretTarget_def variableTarget_def createEnvironmentIfNeeded_def fetch_def flaky_def
      startLoop_def completeOne_def pushResult_def ensured_def btoa_def alphabet_def pad_def js_def ok_def)

lemma flaky_third_target:
  "createEnvironmentIfNeeded flaky sampleProps (js ''web'') (js ''production'')
     (issued (secretsReached flaky sampleProps sampleDialog (Suc (Suc 0)))) =
     (True,
      [GetEnvironment (js ''acme'') (js ''api'') (js ''production''),
       PutSecret (js ''acme'') (js ''api'') (js ''production'') (js ''TOKEN'') (js ''aHVudGVyMg==''),
       GetEnvironment (js ''acme'') (js ''api'') (js ''staging''),
       PutSecret (js ''acme'') (js ''api'') (js ''staging'') (js ''TOKEN'') (js ''aHVudGVyMg==''),
       GetEnvironment (js ''acme'') (js ''web'') (js ''production'')], False)"
  by (simp add: secretsReached_def reached_def sampleDialog_def sampleProps_def
      secretTarget_def createEnvironmentIfNeeded_def fetch_def flaky_def
      startLoop_def completeOne_def pushResult_def ensured_def btoa_def alphabet_def pad_def js_def ok_def)

lemma unreachable_first_target:
  "createEnvironmentIfNeeded unreachable sampleProps (js ''api'') (js ''production'')
     (issued (secretsReached unreachable sampleProps sampleDialog 0)) =
     (False, [GetEnvironment (js ''acme'') (js ''api'') (js ''production'')], False)"
  by (simp add: secretsReached_def reached_def sampleDialog_def sampleProps_def
      createEnvironmentIfNeeded_def fetch_def unreachable_def startLoop_def)

lemma sample_encoded:
  "btoa (invalidCharacterMessage sampleProps) (secretValue sampleDialog) = Inr (js ''aHVudGVyMg=='')"
  by (simp add: sampleDialog_def sampleProps_def btoa_def alphabet_def pad_def js_def)
section \<open>What a loop body records for its target\<close>

lemma secretTarget_unencodable:
  assumes "createEnvironmentIfNeeded net P r e (issued l) = (True, tr1, called)"
    and "btoa (invalidCharacterMessage P) v = Inl ex"
  shows "operationResults (secretTarget net P n v t r e l) =
           operationResults l @ [\<lparr>repo = r, environment = e, success = False,
                  error = Some (case ex of Error msg \<Rightarrow> msg | NonError \<Rightarrow> js ''Unknown error'')\<rparr>]"
    and "issued (secretTarget net P n v t r e l) = tr1"
  using assms by (simp_all add: secretTarget_def split: thrown.splits)

lemma secretTarget_written:
  assumes "createEnvironmentIfNeeded net P r e (issued l) = (True, tr1, called)"
    and "btoa (invalidCharacterMessage P) v = Inr x"
  shows "operationResults (secretTarget net P n v t r e l) =
           operationResults l @
             [case net (tr1 @ [PutSecret (organization P) r e n x]) of
                Throws (Error msg) \<Rightarrow>
                  \<lparr>repo = r, environment = e, success = False, error = Some msg\<rparr>
              | Throws NonError \<Rightarrow>
                  \<lparr>repo = r, environment = e, success = False, error = Some (js ''Unknown error'')\<rparr>
              | Response status b \<Rightarrow>
                  \<lparr>repo = r, environment = e, success = (200 \<le> status \<and> status \<le> 299),
                   error = (if 200 \<le> status \<and> status \<le> 299 then None
                                else Some (js ''HTTP '' @ digits status))\<rparr>]"
    and "issued (secretTarget net P n v t r e l) = tr1 @ [PutSecret (organization P) r e n x]"
  using assms by (simp_all add: secretTarget_def fetch_def ok_def split: outcome.splits thrown.splits)

lemma variableTarget_written:
  assumes "createEnvironmentIfNeeded net P r e (issued l) = (True, tr1, called)"
  shows "operationResults (variableTarget net P n v t r e l) =
           operationResults l @
             [case net (tr1 @ [PostVariable (organization P) r e n v]) of
                Throws (Error msg) \<Rightarrow>
                  \<lparr>repo = r, environment = e, success = False, error = Some msg\<rparr>
              | Throws NonError \<Rightarrow>
                  \<lparr>repo = r, environment = e, success = False, error = Some (js ''Unknown error'')\<rparr>
              | Response status b \<Rightarrow>
                  \<lparr>repo = r, environment = e, success = (200 \<le> status \<and> status \<le> 299),
                   error = (if 200 \<le> status \<and> status \<le> 299 then None
                                else Some (js ''HTTP '' @ digits status))\<rparr>]"
    and "issued (variableTarget net P n v t r e l) = tr1 @ [PostVariable (organization P) r e n v]"
  using assms by (simp_all add: variableTarget_def fetch_def ok_def split: outcome.splits thrown.splits)

lemma secrets_result_nth:
  assumes "k < length (selectedRepos s) * length (selectedEnvironments s)"
    and "List.product (selectedRepos s) (selectedEnvironments s) ! k = (r, e)"
    and "trim (secretName s) \<noteq> []" and "trim (secretValue s) \<noteq> []"
    and "operationResults (secretTarget net P (secretName s) (secretValue s)
           (length (selectedRepos s) * length (selectedEnvironments s)) r e (secretsReached net P s k)) =
         operationResults (secretsReached net P s k) @ [x]"
  shows "results (bulkCreateSecrets net P s) ! k = x"
proof -
  have ne: "selectedRepos s \<noteq> []" "selectedEnvironments s \<noteq> []"
    using assms(1) by auto
  have "operationResults (secretsReached net P s (Suc k)) = operationResults (secretsReached net P s k) @ [x]"
    using assms(5) by (simp add: secretsReached_Suc [OF assms(1,2)])
  then show ?thesis
    using ne assms(3,4) reached_result_nth [OF secretTarget_body assms(1)]
    by (simp add: bulkCreateSecrets_def secretsReached_def Let_def)
qed

lemma variables_result_nth:
  assumes "k < length (selectedRepos s) * length (selectedEnvironments s)"
    and "List.product (selectedRepos s) (selectedEnvironments s) ! k = (r, e)"
    and "trim (variableName s) \<noteq> []" and "trim (variableValue s) \<noteq> []"
    and "operationResults (variableTarget net P (variableName s) (variableValue s)
           (length (selectedRepos s) * length (selectedEnvironments s)) r e (variablesReached net P s k)) =
         operationResults (variablesReached net P s k) @ [x]"
  shows "results (bulkCreateVariables net P s) ! k = x"
proof -
  have ne: "selectedRepos s \<noteq> []" "selectedEnvironments s \<noteq> []"
    using assms(1) by auto
  have "operationResults (variablesReached net P s (Suc k)) = operationResults (variablesReached net P s k) @ [x]"
    using assms(5) by (simp add: variablesReached_Suc [OF assms(1,2)])
  then show ?thesis
    using ne assms(3,4) reached_result_nth [OF variableTarget_body assms(1)]
    by (simp add: bulkCreateVariables_def variablesReached_def Let_def)
qed

section \<open>The writes of the environment manager, one by one\<close>






















text \<open>
  Claim C1. For non-empty lists of selected repositories and selected environments without
  repetitions, a bulk run for a secret or for a variable (an invocation whose name and value
  are not blank, so that it passes the check of its inputs) records exactly
  \<open>|R| * |E|\<close> results, whatever the platform answers: the pairs (repository,
  environment) of the results are all distinct and are exactly the pairs of the Cartesian
  product. The results are those of the dialog state after the run.
\<close>

theorem bulk_results_cover_product:
  assumes "selectedRepos s \<noteq> []" and "selectedEnvironments s \<noteq> []"
    and "distinct (selectedRepos s)" and "distinct (selectedEnvironments s)"
  shows "(trim (secretName s) \<noteq> [] \<and> trim (secretValue s) \<noteq> [] \<longrightarrow>
           length (results (bulkCreateSecrets net P s)) =
             length (selectedRepos s) * length (selectedEnvironments s) \<and>
           set (map target_of (results (bulkCreateSecrets net P s))) =
             set (selectedRepos s) \<times> set (selectedEnvironments s) \<and>
           distinct (map target_of (results (bulkCreateSecrets net P s)))) \<and>
         (trim (variableName s) \<noteq> [] \<and> trim (variableValue s) \<noteq> [] \<longrightarrow>
           length (results (bulkCreateVariables net P s)) =
             length (selectedRepos s) * length (selectedEnvironments s) \<and>
           set (map target_of (results (bulkCreateVariables net P s))) =
             set (selectedRepos s) \<times> set (selectedEnvironments s) \<and>
           distinct (map target_of (results (bulkCreateVariables net P s))))"
proof (intro conjI impI)
  assume a: "trim (secretName s) \<noteq> [] \<and> trim (secretValue s) \<noteq> []"
  have m: "map target_of (results (bulkCreateSecrets net P s)) =
       List.product (selectedRepos s) (selectedEnvironments s)"
    using a assms(1,2) by (simp add: secrets_targets)
  show "length (results (bulkCreateSecrets net P s)) =
       length (selectedRepos s) * length (selectedEnvironments s)"
    using arg_cong [OF m, of length] by simp
  show "set (map target_of (results (bulkCreateSecrets net P s))) =
       set (selectedRepos s) \<times> set (selectedEnvironments s)"
    by (simp only: m set_product)
  show "distinct (map target_of (results (bulkCreateSecrets net P s)))"
    using assms(3,4) by (simp only: m distinct_product)
next
  assume a: "trim (variableName s) \<noteq> [] \<and> trim (variableValue s) \<noteq> []"
  have m: "map target_of (results (bulkCreateVariables net P s)) =
       List.product (selectedRepos s) (selectedEnvironments s)"
    using a assms(1,2) by (simp add: variables_targets)
  show "length (results (bulkCreateVariables net P s)) =
       length (selectedRepos s) * length (selectedEnvironments s)"
    using arg_cong [OF m, of length] by simp
  show "set (map target_of (results (bulkCreateVariables net P s))) =
       set (selectedRepos s) \<times> set (selectedEnvironments s)"
    by (simp only: m set_product)
  show "distinct (map target_of (results (bulkCreateVariables net P s)))"
    using assms(3,4) by (simp only: m distinct_product)
qed

theorem bulk_results_cover_product_witness:
  "selectedRepos sampleDialog \<noteq> [] \<and> selectedEnvironments sampleDialog \<noteq> [] \<and>
   distinct (selectedRepos sampleDialog) \<and> distinct (selectedEnvironments sampleDialog) \<and>
   trim (secretName sampleDialog) \<noteq> [] \<and> trim (secretValue sampleDialog) \<noteq> [] \<and>
   trim (variableName sampleDialog) \<noteq> [] \<and> trim (variableValue sampleDialog) \<noteq> [] \<and>
   length (results (bulkCreateSecrets stagingUnavailable sampleProps sampleDialog)) = 4 \<and>
   distinct (map target_of (results (bulkCreateSecrets stagingUnavailable sampleProps sampleDialog))) \<and>
   length (results (bulkCreateVariables unreachable sampleProps sampleDialog)) = 4 \<and>
   distinct (map target_of (results (bulkCreateVariables unreachable sampleProps sampleDialog)))"
proof -
  have len: "length (selectedRepos sampleDialog) * length (selectedEnvironments sampleDialog) = 4"
    by (simp add: sampleDialog_def)
  show ?thesis
    using bulk_results_cover_product [OF sample_valid(5,6,7,8), of stagingUnavailable sampleProps]
      bulk_results_cover_product [OF sample_valid(5,6,7,8), of unreachable sampleProps]
    by (simp add: sample_valid len)
qed

text \<open>
  Claim C2, as the code has it. \<open>createEnvironmentIfNeeded\<close> for a repository and an
  environment name: when the existence GET answers with a 2xx status it returns true and
  issues nothing else; when the GET answers 404 it issues exactly one create (PUT) request
  and returns true exactly when that request succeeds and the callback
  \<open>onEnvironmentCreated\<close>, which is called after a successful create when the parent
  gives one, does not throw; for any other outcome of the GET (another status, or a thrown
  transport error) it returns false and issues no create request. The second component is
  the request log, the third whether the callback was called.
\<close>

theorem createEnvironmentIfNeeded_outcomes:
  "(net (tr @ [GetEnvironment (organization P) repoName envName]) = Response st b \<and> 200 \<le> st \<and> st \<le> 299 \<longrightarrow>
      createEnvironmentIfNeeded net P repoName envName tr =
        (True, tr @ [GetEnvironment (organization P) repoName envName], False))
   \<and> (net (tr @ [GetEnvironment (organization P) repoName envName]) = Response 404 b \<longrightarrow>
      createEnvironmentIfNeeded net P repoName envName tr =
        (succeeded (net (tr @ [GetEnvironment (organization P) repoName envName,
                               PutEnvironment (organization P) repoName envName]))
           \<and> (\<forall>call. onEnvironmentCreated P = Some call \<longrightarrow>
                 call (tr @ [GetEnvironment (organization P) repoName envName,
                             PutEnvironment (organization P) repoName envName]) = None),
         tr @ [GetEnvironment (organization P) repoName envName,
               PutEnvironment (organization P) repoName envName],
         succeeded (net (tr @ [GetEnvironment (organization P) repoName envName,
                               PutEnvironment (organization P) repoName envName]))
           \<and> onEnvironmentCreated P \<noteq> None))
   \<and> ((net (tr @ [GetEnvironment (organization P) repoName envName]) = Response st b \<and>
          \<not> (200 \<le> st \<and> st \<le> 299) \<and> st \<noteq> 404)
        \<or> net (tr @ [GetEnvironment (organization P) repoName envName]) = Throws x \<longrightarrow>
      createEnvironmentIfNeeded net P repoName envName tr =
        (False, tr @ [GetEnvironment (organization P) repoName envName], False))"
  by (auto simp: createEnvironmentIfNeeded_def fetch_def ok_def split: outcome.splits option.splits)

theorem createEnvironmentIfNeeded_outcomes_witness:
  "createEnvironmentIfNeeded alwaysOk sampleProps (js ''api'') (js ''staging'') [] =
     (True, [GetEnvironment (js ''acme'') (js ''api'') (js ''staging'')], False) \<and>
   createEnvironmentIfNeeded missingEnvironments sampleProps (js ''api'') (js ''staging'') [] =
     (True, [GetEnvironment (js ''acme'') (js ''api'') (js ''staging''),
             PutEnvironment (js ''acme'') (js ''api'') (js ''staging'')], True) \<and>
   createEnvironmentIfNeeded stagingUnavailable sampleProps (js ''api'') (js ''staging'') [] =
     (False, [GetEnvironment (js ''acme'') (js ''api'') (js ''staging''),
              PutEnvironment (js ''acme'') (js ''api'') (js ''staging'')], False) \<and>
   createEnvironmentIfNeeded forbidden sampleProps (js ''api'') (js ''staging'') [] =
     (False, [GetEnvironment (js ''acme'') (js ''api'') (js ''staging'')], False) \<and>
   createEnvironmentIfNeeded unreachable sampleProps (js ''api'') (js ''staging'') [] =
     (False, [GetEnvironment (js ''acme'') (js ''api'') (js ''staging'')], False)"
  using
    createEnvironmentIfNeeded_outcomes [of alwaysOk "[]" sampleProps "js ''api''" "js ''staging''" 200 "Object [] []"]
    createEnvironmentIfNeeded_outcomes [of missingEnvironments "[]" sampleProps "js ''api''" "js ''staging''" 200 "Object [] []"]
    createEnvironmentIfNeeded_outcomes [of stagingUnavailable "[]" sampleProps "js ''api''" "js ''staging''" 200 "Object [] []"]
    createEnvironmentIfNeeded_outcomes [of forbidden "[]" sampleProps "js ''api''" "js ''staging''" 403 "Object [] []"]
    createEnvironmentIfNeeded_outcomes [of unreachable "[]" sampleProps "js ''api''" "js ''staging''" 403 "Object [] []" "Error (js ''Failed to fetch'')"]
  by (simp add: alwaysOk_def missingEnvironments_def stagingUnavailable_def forbidden_def
      unreachable_def sampleProps_def ok_def)

text \<open>
  Claim C2 as stated has the function return true, after a 404, exactly when the create
  request succeeds. On the platform where no environment exists and every create is
  accepted, with a parent whose callback throws, the GET answers 404 and the one create
  request succeeds, and the function returns false: the call of the callback is inside the
  \<open>try\<close> of the function.
\<close>

theorem created_but_callback_throws:
  "missingEnvironments [GetEnvironment (js ''acme'') (js ''api'') (js ''staging'')] =
     Response 404 (Object [] []) \<and>
   succeeded (missingEnvironments [GetEnvironment (js ''acme'') (js ''api'') (js ''staging''),
                                   PutEnvironment (js ''acme'') (js ''api'') (js ''staging'')]) \<and>
   createEnvironmentIfNeeded missingEnvironments throwingProps (js ''api'') (js ''staging'') [] =
     (False, [GetEnvironment (js ''acme'') (js ''api'') (js ''staging''),
              PutEnvironment (js ''acme'') (js ''api'') (js ''staging'')], True)"
  by (simp add: createEnvironmentIfNeeded_def fetch_def missingEnvironments_def throwingProps_def
      sampleProps_def ok_def)

text \<open>
  Claim C4. In a scan over repositories with distinct names and the fixed vocabulary of
  four environments, on a platform whose listings report each name at most once, every
  entry of the secrets map and of the variables map partitions the grid: the places of
  \<open>locations\<close> and of \<open>missingIn\<close> together are exactly the pairs of the grid, the two
  lists share no place and no key \<open>repository:environment\<close>, and neither list repeats a
  key (so neither repeats a place).
\<close>

theorem inventory_partition:
  assumes "distinct (map Repository.name (repositories P))" and "reportsOnce net"
  shows "(\<forall>(k, e) \<in> set (secretsMap (fetchAllSecretsAndVariables net P g)).
            set (map place (locations e)) \<union> set (map place (missingIn e)) = set (grid (repositories P)) \<and>
            set (map place (locations e)) \<inter> set (map place (missingIn e)) = {} \<and>
            set (map key (locations e)) \<inter> set (map key (missingIn e)) = {} \<and>
            distinct (map key (locations e)) \<and> distinct (map key (missingIn e))) \<and>
         (\<forall>(k, e) \<in> set (variablesMap (fetchAllSecretsAndVariables net P g)).
            set (map place (locations e)) \<union> set (map place (missingIn e)) = set (grid (repositories P)) \<and>
            set (map place (locations e)) \<inter> set (map place (missingIn e)) = {} \<and>
            set (map key (locations e)) \<inter> set (map key (missingIn e)) = {} \<and>
            distinct (map key (locations e)) \<and> distinct (map key (missingIn e)))"
proof (intro conjI ballI)
  fix x
  assume x: "x \<in> set (secretsMap (fetchAllSecretsAndVariables net P g))"
  obtain k e where ke: "x = (k, e)" by (cases x)
  from x have "(k, e) \<in> set (setMissing (allLocations (repositories P))
      (newSecretsMap
        (fold (\<lambda>repo. fold (\<lambda>env. scanPair net P (Repository.name repo) env) COMMON_ENVIRONMENTS)
           (repositories P)
           \<lparr>newSecretsMap = [], newVariablesMap = [], asked = GlobalSecretsList.requests g\<rparr>)))"
    by (simp add: fetchAllSecretsAndVariables_def Let_def ke)
  from setMissing_partition [OF scan_placed(1) [OF assms] assms(1) this]
  show "case x of (k, e) \<Rightarrow>
            set (map place (locations e)) \<union> set (map place (missingIn e)) = set (grid (repositories P)) \<and>
            set (map place (locations e)) \<inter> set (map place (missingIn e)) = {} \<and>
            set (map key (locations e)) \<inter> set (map key (missingIn e)) = {} \<and>
            distinct (map key (locations e)) \<and> distinct (map key (missingIn e))"
    unfolding ke prod.case .
next
  fix x
  assume x: "x \<in> set (variablesMap (fetchAllSecretsAndVariables net P g))"
  obtain k e where ke: "x = (k, e)" by (cases x)
  from x have "(k, e) \<in> set (setMissing (allLocations (repositories P))
      (newVariablesMap
        (fold (\<lambda>repo. fold (\<lambda>env. scanPair net P (Repository.name repo) env) COMMON_ENVIRONMENTS)
           (repositories P)
           \<lparr>newSecretsMap = [], newVariablesMap = [], asked = GlobalSecretsList.requests g\<rparr>)))"
    by (simp add: fetchAllSecretsAndVariables_def Let_def ke)
  from setMissing_partition [OF scan_placed(2) [OF assms] assms(1) this]
  show "case x of (k, e) \<Rightarrow>
            set (map place (locations e)) \<union> set (map place (missingIn e)) = set (grid (repositories P)) \<and>
            set (map place (locations e)) \<inter> set (map place (missingIn e)) = {} \<and>
            set (map key (locations e)) \<inter> set (map key (missingIn e)) = {} \<and>
            distinct (map key (locations e)) \<and> distinct (map key (missingIn e))"
    unfolding ke prod.case .
qed

theorem inventory_partition_witness:
  "distinct (map Repository.name (repositories sampleRepositories)) \<and>
   reportsOnce tokenPlatform \<and>
   (js ''TOKEN'', tokenEntry)
     \<in> set (secretsMap (fetchAllSecretsAndVariables tokenPlatform sampleRepositories emptyInventory)) \<and>
   set (map place (locations tokenEntry)) \<union> set (map place (missingIn tokenEntry)) =
     set (grid (repositories sampleRepositories)) \<and>
   set (map place (locations tokenEntry)) \<inter> set (map place (missingIn tokenEntry)) = {} \<and>
   distinct (map key (locations tokenEntry)) \<and> distinct (map key (missingIn tokenEntry))"
proof -
  have m: "(js ''TOKEN'', tokenEntry)
     \<in> set (secretsMap (fetchAllSecretsAndVariables tokenPlatform sampleRepositories emptyInventory))"
    by (simp add: sample_scan)
  note t = inventory_partition [OF sample_repositories_distinct tokenPlatform_reportsOnce,
      of emptyInventory, THEN conjunct1, THEN bspec, OF m, unfolded prod.case]
  show ?thesis
    using t m sample_repositories_distinct tokenPlatform_reportsOnce by blast
qed

text \<open>
  Claim C3. Let \<open>(r, e)\<close> be the target of index \<open>k\<close> of a bulk run, and let
  \<open>createEnvironmentIfNeeded\<close> return false for it in the state the loop has reached.
  Then the result recorded for the target, at index \<open>k\<close> of the results, is the failure
  with the error "Failed to create/access environment"; the requests issued for the target
  are those of \<open>createEnvironmentIfNeeded\<close> alone, none of them a write of a secret or a
  variable; and the run goes on: the results cover every target of the product.
\<close>

theorem environment_unavailable:
  assumes "k < length (selectedRepos s) * length (selectedEnvironments s)"
    and "List.product (selectedRepos s) (selectedEnvironments s) ! k = (r, e)"
  shows "(trim (secretName s) \<noteq> [] \<and> trim (secretValue s) \<noteq> [] \<and>
          \<not> fst (createEnvironmentIfNeeded net P r e (issued (secretsReached net P s k))) \<longrightarrow>
            results (bulkCreateSecrets net P s) ! k =
              \<lparr>repo = r, environment = e, success = False,
               error = Some (js ''Failed to create/access environment'')\<rparr> \<and>
            issued (secretsReached net P s (Suc k)) =
              fst (snd (createEnvironmentIfNeeded net P r e (issued (secretsReached net P s k)))) \<and>
            (\<forall>q \<in> set (drop (length (issued (secretsReached net P s k)))
                          (issued (secretsReached net P s (Suc k)))). \<not> is_write q) \<and>
            map target_of (results (bulkCreateSecrets net P s)) =
              List.product (selectedRepos s) (selectedEnvironments s)) \<and>
         (trim (variableName s) \<noteq> [] \<and> trim (variableValue s) \<noteq> [] \<and>
          \<not> fst (createEnvironmentIfNeeded net P r e (issued (variablesReached net P s k))) \<longrightarrow>
            results (bulkCreateVariables net P s) ! k =
              \<lparr>repo = r, environment = e, success = False,
               error = Some (js ''Failed to create/access environment'')\<rparr> \<and>
            issued (variablesReached net P s (Suc k)) =
              fst (snd (createEnvironmentIfNeeded net P r e (issued (variablesReached net P s k)))) \<and>
            (\<forall>q \<in> set (drop (length (issued (variablesReached net P s k)))
                          (issued (variablesReached net P s (Suc k)))). \<not> is_write q) \<and>
            map target_of (results (bulkCreateVariables net P s)) =
              List.product (selectedRepos s) (selectedEnvironments s))"
proof (intro conjI impI)
  let ?n = "length (selectedRepos s) * length (selectedEnvironments s)"
  have ne: "selectedRepos s \<noteq> []" "selectedEnvironments s \<noteq> []"
    using assms(1) by auto
  {
    assume a: "trim (secretName s) \<noteq> [] \<and> trim (secretValue s) \<noteq> [] \<and>
          \<not> fst (createEnvironmentIfNeeded net P r e (issued (secretsReached net P s k)))"
    let ?l = "secretsReached net P s k"
    note step = secretsReached_Suc [OF assms, of net P]
    note un = secretTarget_unavailable [of net P r e ?l "secretName s" "secretValue s" ?n]
    have res: "operationResults (secretsReached net P s (Suc k)) =
        operationResults ?l @ [\<lparr>repo = r, environment = e, success = False,
              error = Some (js ''Failed to create/access environment'')\<rparr>]"
      using a un(1) by (simp add: step)
    show "results (bulkCreateSecrets net P s) ! k =
              \<lparr>repo = r, environment = e, success = False,
               error = Some (js ''Failed to create/access environment'')\<rparr>"
      using a ne res reached_result_nth [OF secretTarget_body assms(1)]
      by (simp add: bulkCreateSecrets_def secretsReached_def Let_def)
    show iss: "issued (secretsReached net P s (Suc k)) =
              fst (snd (createEnvironmentIfNeeded net P r e (issued ?l)))"
      using a un(2) by (simp add: step)
    show "\<forall>q \<in> set (drop (length (issued ?l)) (issued (secretsReached net P s (Suc k)))). \<not> is_write q"
      using createEnvironmentIfNeeded_log [of net P r e "issued ?l"] unfolding iss by auto
    show "map target_of (results (bulkCreateSecrets net P s)) =
              List.product (selectedRepos s) (selectedEnvironments s)"
      using a ne by (simp add: secrets_targets)
  }
  {
    assume a: "trim (variableName s) \<noteq> [] \<and> trim (variableValue s) \<noteq> [] \<and>
          \<not> fst (createEnvironmentIfNeeded net P r e (issued (variablesReached net P s k)))"
    let ?l = "variablesReached net P s k"
    note step = variablesReached_Suc [OF assms, of net P]
    note un = variableTarget_unavailable [of net P r e ?l "variableName s" "variableValue s" ?n]
    have res: "operationResults (variablesReached net P s (Suc k)) =
        operationResults ?l @ [\<lparr>repo = r, environment = e, success = False,
              error = Some (js ''Failed to create/access environment'')\<rparr>]"
      using a un(1) by (simp add: step)
    show "results (bulkCreateVariables net P s) ! k =
              \<lparr>repo = r, environment = e, success = False,
               error = Some (js ''Failed to create/access environment'')\<rparr>"
      using a ne res reached_result_nth [OF variableTarget_body assms(1)]
      by (simp add: bulkCreateVariables_def variablesReached_def Let_def)
    show iss: "issued (variablesReached net P s (Suc k)) =
              fst (snd (createEnvironmentIfNeeded net P r e (issued ?l)))"
      using a un(2) by (simp add: step)
    show "\<forall>q \<in> set (drop (length (issued ?l)) (issued (variablesReached net P s (Suc k)))). \<not> is_write q"
      using createEnvironmentIfNeeded_log [of net P r e "issued ?l"] unfolding iss by auto
    show "map target_of (results (bulkCreateVariables net P s)) =
              List.product (selectedRepos s) (selectedEnvironments s)"
      using a ne by (simp add: variables_targets)
  }
qed

theorem environment_unavailable_witness:
  "(1::nat) < length (selectedRepos sampleDialog) * length (selectedEnvironments sampleDialog) \<and>
   List.product (selectedRepos sampleDialog) (selectedEnvironments sampleDialog) ! 1 =
     (js ''api'', js ''staging'') \<and>
   trim (secretName sampleDialog) \<noteq> [] \<and> trim (secretValue sampleDialog) \<noteq> [] \<and>
   trim (variableName sampleDialog) \<noteq> [] \<and> trim (variableValue sampleDialog) \<noteq> [] \<and>
   \<not> fst (createEnvironmentIfNeeded stagingUnavailable sampleProps (js ''api'') (js ''staging'')
           (issued (secretsReached stagingUnavailable sampleProps sampleDialog 1))) \<and>
   \<not> fst (createEnvironmentIfNeeded stagingUnavailable sampleProps (js ''api'') (js ''staging'')
           (issued (variablesReached stagingUnavailable sampleProps sampleDialog 1))) \<and>
   results (bulkCreateSecrets stagingUnavailable sampleProps sampleDialog) ! 1 =
     \<lparr>repo = js ''api'', environment = js ''staging'', success = False,
      error = Some (js ''Failed to create/access environment'')\<rparr> \<and>
   results (bulkCreateVariables stagingUnavailable sampleProps sampleDialog) ! 1 =
     \<lparr>repo = js ''api'', environment = js ''staging'', success = False,
      error = Some (js ''Failed to create/access environment'')\<rparr> \<and>
   issued (secretsReached stagingUnavailable sampleProps sampleDialog 2) =
     [GetEnvironment (js ''acme'') (js ''api'') (js ''production''),
      PutSecret (js ''acme'') (js ''api'') (js ''production'') (js ''TOKEN'') (js ''aHVudGVyMg==''),
      GetEnvironment (js ''acme'') (js ''api'') (js ''staging''),
      PutEnvironment (js ''acme'') (js ''api'') (js ''staging'')]"
proof -
  have k: "(1::nat) < length (selectedRepos sampleDialog) * length (selectedEnvironments sampleDialog)"
    by (simp add: sampleDialog_def)
  have p: "List.product (selectedRepos sampleDialog) (selectedEnvironments sampleDialog) ! 1 =
     (js ''api'', js ''staging'')"
    by (simp add: sampleDialog_def)
  have f: "\<not> fst (createEnvironmentIfNeeded stagingUnavailable sampleProps (js ''api'') (js ''staging'')
           (issued (secretsReached stagingUnavailable sampleProps sampleDialog 1)))"
    "\<not> fst (createEnvironmentIfNeeded stagingUnavailable sampleProps (js ''api'') (js ''staging'')
           (issued (variablesReached stagingUnavailable sampleProps sampleDialog 1)))"
    using sample_staging_fails [of "[GetEnvironment (js ''acme'') (js ''api'') (js ''production'')]"]
    by (simp_all add: sample_first_target)
  show ?thesis
    using environment_unavailable [OF k p, of stagingUnavailable sampleProps] k p f sample_valid
    by (simp add: sample_first_target sample_staging_log numeral_2_eq_2)
qed

text \<open>
  Claim C5. A bulk run never aborts on the failure of a target. Let \<open>(r, e)\<close> be the
  target of index \<open>k\<close> of a run that passes the check of its inputs, and let
  \<open>createEnvironmentIfNeeded\<close> return \<open>(envCreated, envLog, called)\<close> in the state the
  loop has reached. Whatever the platform does at each request (any status, or a thrown
  transport error), the run records one result for every pair of the Cartesian product, in
  the order of the loops, and the result at index \<open>k\<close> is the outcome of the target as
  data:
  \<^item> the failure "Failed to create/access environment" when the environment is unavailable;
  \<^item> the failure with the message of the exception when \<open>btoa\<close> rejects the secret value;
  \<^item> the failure with the message of the thrown error (or "Unknown error") when the fetch
    of the write throws;
  \<^item> the failure "HTTP" followed by the status when the write is answered with a status
    outside 200 to 299;
  \<^item> a success exactly when the write is answered with a status from 200 to 299.

  Every failed result carries its error (the operation itself is a total function to the
  next dialog state, nothing is thrown out of it), and the toast with the number of
  successes out of the total is shown, also when no target succeeds.
\<close>

theorem bulk_run_never_aborts:
  assumes "k < length (selectedRepos s) * length (selectedEnvironments s)"
    and "List.product (selectedRepos s) (selectedEnvironments s) ! k = (r, e)"
  shows "(trim (secretName s) \<noteq> [] \<and> trim (secretValue s) \<noteq> [] \<and>
          createEnvironmentIfNeeded net P r e (issued (secretsReached net P s k)) =
            (envCreated, envLog, called) \<longrightarrow>
            map target_of (results (bulkCreateSecrets net P s)) =
              List.product (selectedRepos s) (selectedEnvironments s) \<and>
            (\<not> envCreated \<longrightarrow>
               results (bulkCreateSecrets net P s) ! k =
                 \<lparr>repo = r, environment = e, success = False,
                  error = Some (js ''Failed to create/access environment'')\<rparr>) \<and>
            (\<forall>ex. envCreated \<and> btoa (invalidCharacterMessage P) (secretValue s) = Inl ex \<longrightarrow>
               results (bulkCreateSecrets net P s) ! k =
                 \<lparr>repo = r, environment = e, success = False,
                  error = Some (case ex of Error msg \<Rightarrow> msg | NonError \<Rightarrow> js ''Unknown error'')\<rparr>) \<and>
            (\<forall>x. envCreated \<and> btoa (invalidCharacterMessage P) (secretValue s) = Inr x \<longrightarrow>
               results (bulkCreateSecrets net P s) ! k =
                 (case net (envLog @ [PutSecret (organization P) r e (secretName s) x]) of
                    Throws (Error msg) \<Rightarrow>
                      \<lparr>repo = r, environment = e, success = False, error = Some msg\<rparr>
                  | Throws NonError \<Rightarrow>
                      \<lparr>repo = r, environment = e, success = False,
                       error = Some (js ''Unknown error'')\<rparr>
                  | Response status b \<Rightarrow>
                      \<lparr>repo = r, environment = e, success = (200 \<le> status \<and> status \<le> 299),
                       error = (if 200 \<le> status \<and> status \<le> 299 then None
                                else Some (js ''HTTP '' @ digits status))\<rparr>)) \<and>
            (\<forall>x \<in> set (results (bulkCreateSecrets net P s)). \<not> success x \<longrightarrow> error x \<noteq> None) \<and>
            toasts (bulkCreateSecrets net P s) =
              toasts s @
                [createdToast (js ''Bulk Secret Creation Complete'') (js ''secret'')
                   (length (filter success (results (bulkCreateSecrets net P s))))
                   (length (selectedRepos s) * length (selectedEnvironments s))] \<and>
            \<not> isProcessing (bulkCreateSecrets net P s)) \<and>
         (trim (variableName s) \<noteq> [] \<and> trim (variableValue s) \<noteq> [] \<and>
          createEnvironmentIfNeeded net P r e (issued (variablesReached net P s k)) =
            (envCreated', envLog', called') \<longrightarrow>
            map target_of (results (bulkCreateVariables net P s)) =
              List.product (selectedRepos s) (selectedEnvironments s) \<and>
            (\<not> envCreated' \<longrightarrow>
               results (bulkCreateVariables net P s) ! k =
                 \<lparr>repo = r, environment = e, success = False,
                  error = Some (js ''Failed to create/access environment'')\<rparr>) \<and>
            (envCreated' \<longrightarrow>
               results (bulkCreateVariables net P s) ! k =
                 (case net (envLog' @ [PostVariable (organization P) r e (variableName s) (variableValue s)]) of
                    Throws (Error msg) \<Rightarrow>
                      \<lparr>repo = r, environment = e, success = False, error = Some msg\<rparr>
                  | Throws NonError \<Rightarrow>
                      \<lparr>repo = r, environment = e, success = False,
                       error = Some (js ''Unknown error'')\<rparr>
                  | Response status b \<Rightarrow>
                      \<lparr>repo = r, environment = e, success = (200 \<le> status \<and> status \<le> 299),
                       error = (if 200 \<le> status \<and> status \<le> 299 then None
                                else Some (js ''HTTP '' @ digits status))\<rparr>)) \<and>
            (\<forall>x \<in> set (results (bulkCreateVariables net P s)). \<not> success x \<longrightarrow> error x \<noteq> None) \<and>
            toasts (bulkCreateVariables net P s) =
              toasts s @
                [createdToast (js ''Bulk Variable Creation Complete'') (js ''variable'')
                   (length (filter success (results (bulkCreateVariables net P s))))
                   (length (selectedRepos s) * length (selectedEnvironments s))] \<and>
            \<not> isProcessing (bulkCreateVariables net P s))"
proof (intro conjI impI allI)
  let ?n = "length (selectedRepos s) * length (selectedEnvironments s)"
  have ne: "selectedRepos s \<noteq> []" "selectedEnvironments s \<noteq> []"
    using assms(1) by auto
  {
    assume a: "trim (secretName s) \<noteq> [] \<and> trim (secretValue s) \<noteq> [] \<and>
          createEnvironmentIfNeeded net P r e (issued (secretsReached net P s k)) =
            (envCreated, envLog, called)"
    then have v: "trim (secretName s) \<noteq> []" "trim (secretValue s) \<noteq> []"
      and env: "createEnvironmentIfNeeded net P r e (issued (secretsReached net P s k)) =
            (envCreated, envLog, called)"
      by simp_all
    let ?l = "secretsReached net P s k"
    have run: "bulkCreateSecrets net P s =
       finishLoop (js ''Bulk Secret Creation Complete'') (js ''secret'') ?n
         (fold (\<lambda>(r, e). secretTarget net P (secretName s) (secretValue s) ?n r e)
            (List.product (selectedRepos s) (selectedEnvironments s)) (startLoop s)) s"
      using v ne by (simp add: secrets_run)
    show "map target_of (results (bulkCreateSecrets net P s)) =
         List.product (selectedRepos s) (selectedEnvironments s)"
      using v ne by (simp add: secrets_targets)
    show "\<forall>x \<in> set (results (bulkCreateSecrets net P s)). \<not> success x \<longrightarrow> error x \<noteq> None"
      unfolding run finishLoop_sel
      by (rule fold_targets_errors [OF secretTarget_body]) simp
    show "toasts (bulkCreateSecrets net P s) =
         toasts s @
           [createdToast (js ''Bulk Secret Creation Complete'') (js ''secret'')
              (length (filter success (results (bulkCreateSecrets net P s)))) ?n]"
      unfolding run finishLoop_sel ..
    show "\<not> isProcessing (bulkCreateSecrets net P s)"
      unfolding run finishLoop_sel by simp
    {
      assume "\<not> envCreated"
      then have "\<not> fst (createEnvironmentIfNeeded net P r e (issued ?l))"
        by (simp add: env)
      from secrets_result_nth [OF assms v secretTarget_unavailable(1) [OF this]]
      show "results (bulkCreateSecrets net P s) ! k =
                 \<lparr>repo = r, environment = e, success = False,
                  error = Some (js ''Failed to create/access environment'')\<rparr>" .
    }
    {
      fix ex
      assume "envCreated \<and> btoa (invalidCharacterMessage P) (secretValue s) = Inl ex"
      then have "createEnvironmentIfNeeded net P r e (issued ?l) = (True, envLog, called)"
        and b: "btoa (invalidCharacterMessage P) (secretValue s) = Inl ex"
        using env by simp_all
      from secrets_result_nth [OF assms v secretTarget_unencodable(1) [OF this]]
      show "results (bulkCreateSecrets net P s) ! k =
                 \<lparr>repo = r, environment = e, success = False,
                  error = Some (case ex of Error msg \<Rightarrow> msg | NonError \<Rightarrow> js ''Unknown error'')\<rparr>" .
    }
    {
      fix x
      assume "envCreated \<and> btoa (invalidCharacterMessage P) (secretValue s) = Inr x"
      then have "createEnvironmentIfNeeded net P r e (issued ?l) = (True, envLog, called)"
        and b: "btoa (invalidCharacterMessage P) (secretValue s) = Inr x"
        using env by simp_all
      from secrets_result_nth [OF assms v secretTarget_written(1) [OF this]]
      show "results (bulkCreateSecrets net P s) ! k =
                 (case net (envLog @ [PutSecret (organization P) r e (secretName s) x]) of
                    Throws (Error msg) \<Rightarrow>
                      \<lparr>repo = r, environment = e, success = False, error = Some msg\<rparr>
                  | Throws NonError \<Rightarrow>
                      \<lparr>repo = r, environment = e, success = False,
                       error = Some (js ''Unknown error'')\<rparr>
                  | Response status b \<Rightarrow>
                      \<lparr>repo = r, environment = e, success = (200 \<le> status \<and> status \<le> 299),
                       error = (if 200 \<le> status \<and> status \<le> 299 then None
                                else Some (js ''HTTP '' @ digits status))\<rparr>)" .
    }
  }
  {
    assume a: "trim (variableName s) \<noteq> [] \<and> trim (variableValue s) \<noteq> [] \<and>
          createEnvironmentIfNeeded net P r e (issued (variablesReached net P s k)) =
            (envCreated', envLog', called')"
    then have v: "trim (variableName s) \<noteq> []" "trim (variableValue s) \<noteq> []"
      and env: "createEnvironmentIfNeeded net P r e (issued (variablesReached net P s k)) =
            (envCreated', envLog', called')"
      by simp_all
    let ?l = "variablesReached net P s k"
    have run: "bulkCreateVariables net P s =
       finishLoop (js ''Bulk Variable Creation Complete'') (js ''variable'') ?n
         (fold (\<lambda>(r, e). variableTarget net P (variableName s) (variableValue s) ?n r e)
            (List.product (selectedRepos s) (selectedEnvironments s)) (startLoop s)) s"
      using v ne by (simp add: variables_run)
    show "map target_of (results (bulkCreateVariables net P s)) =
         List.product (selectedRepos s) (selectedEnvironments s)"
      using v ne by (simp add: variables_targets)
    show "\<forall>x \<in> set (results (bulkCreateVariables net P s)). \<not> success x \<longrightarrow> error x \<noteq> None"
      unfolding run finishLoop_sel
      by (rule fold_targets_errors [OF variableTarget_body]) simp
    show "toasts (bulkCreateVariables net P s) =
         toasts s @
           [createdToast (js ''Bulk Variable Creation Complete'') (js ''variable'')
              (length (filter success (results (bulkCreateVariables net P s)))) ?n]"
      unfolding run finishLoop_sel ..
    show "\<not> isProcessing (bulkCreateVariables net P s)"
      unfolding run finishLoop_sel by simp
    {
      assume "\<not> envCreated'"
      then have "\<not> fst (createEnvironmentIfNeeded net P r e (issued ?l))"
        by (simp add: env)
      from variables_result_nth [OF assms v variableTarget_unavailable(1) [OF this]]
      show "results (bulkCreateVariables net P s) ! k =
                 \<lparr>repo = r, environment = e, success = False,
                  error = Some (js ''Failed to create/access environment'')\<rparr>" .
    }
    {
      assume "envCreated'"
      then have "createEnvironmentIfNeeded net P r e (issued ?l) = (True, envLog', called')"
        using env by simp
      from variables_result_nth [OF assms v variableTarget_written(1) [OF this]]
      show "results (bulkCreateVariables net P s) ! k =
                 (case net (envLog' @ [PostVariable (organization P) r e (variableName s) (variableValue s)]) of
                    Throws (Error msg) \<Rightarrow>
                      \<lparr>repo = r, environment = e, success = False, error = Some msg\<rparr>
                  | Throws NonError \<Rightarrow>
                      \<lparr>repo = r, environment = e, success = False,
                       error = Some (js ''Unknown error'')\<rparr>
                  | Response status b \<Rightarrow>
                      \<lparr>repo = r, environment = e, success = (200 \<le> status \<and> status \<le> 299),
                       error = (if 200 \<le> status \<and> status \<le> 299 then None
                                else Some (js ''HTTP '' @ digits status))\<rparr>)" .
    }
  }
qed

theorem bulk_run_never_aborts_witness:
  "(1::nat) < length (selectedRepos sampleDialog) * length (selectedEnvironments sampleDialog) \<and>
   List.product (selectedRepos sampleDialog) (selectedEnvironments sampleDialog) ! 1 =
     (js ''api'', js ''staging'') \<and>
   List.product (selectedRepos sampleDialog) (selectedEnvironments sampleDialog) ! 2 =
     (js ''web'', js ''production'') \<and>
   trim (secretName sampleDialog) \<noteq> [] \<and> trim (secretValue sampleDialog) \<noteq> [] \<and>
   trim (variableName sampleDialog) \<noteq> [] \<and> trim (variableValue sampleDialog) \<noteq> [] \<and>
   fst (createEnvironmentIfNeeded flaky sampleProps (js ''api'') (js ''staging'')
          (issued (secretsReached flaky sampleProps sampleDialog 1))) \<and>
   fst (createEnvironmentIfNeeded flaky sampleProps (js ''api'') (js ''staging'')
          (issued (variablesReached flaky sampleProps sampleDialog 1))) \<and>
   fst (createEnvironmentIfNeeded flaky sampleProps (js ''web'') (js ''production'')
          (issued (secretsReached flaky sampleProps sampleDialog 2))) \<and>
   btoa (invalidCharacterMessage sampleProps) (secretValue sampleDialog) = Inr (js ''aHVudGVyMg=='') \<and>
   results (bulkCreateSecrets flaky sampleProps sampleDialog) ! 1 =
     \<lparr>repo = js ''api'', environment = js ''staging'', success = False,
      error = Some (js ''Failed to fetch'')\<rparr> \<and>
   results (bulkCreateSecrets flaky sampleProps sampleDialog) ! 2 =
     \<lparr>repo = js ''web'', environment = js ''production'', success = False,
      error = Some (js ''HTTP 403'')\<rparr> \<and>
   results (bulkCreateVariables flaky sampleProps sampleDialog) ! 1 =
     \<lparr>repo = js ''api'', environment = js ''staging'', success = False,
      error = Some (js ''Failed to fetch'')\<rparr> \<and>
   map target_of (results (bulkCreateSecrets flaky sampleProps sampleDialog)) =
     [(js ''api'', js ''production''), (js ''api'', js ''staging''),
      (js ''web'', js ''production''), (js ''web'', js ''staging'')] \<and>
   toasts (bulkCreateSecrets flaky sampleProps sampleDialog) =
     [createdToast (js ''Bulk Secret Creation Complete'') (js ''secret'') 1 4] \<and>
   results (bulkCreateSecrets unreachable sampleProps sampleDialog) ! 0 =
     \<lparr>repo = js ''api'', environment = js ''production'', success = False,
      error = Some (js ''Failed to create/access environment'')\<rparr> \<and>
   filter success (results (bulkCreateSecrets unreachable sampleProps sampleDialog)) = [] \<and>
   toasts (bulkCreateSecrets unreachable sampleProps sampleDialog) =
     [createdToast (js ''Bulk Secret Creation Complete'') (js ''secret'') 0 4]"
proof -
  let ?n = "length (selectedRepos sampleDialog) * length (selectedEnvironments sampleDialog)"
  let ?ts = "List.product (selectedRepos sampleDialog) (selectedEnvironments sampleDialog)"
  have k: "0 < ?n" "Suc 0 < ?n" "Suc (Suc 0) < ?n"
    by (simp_all add: sampleDialog_def)
  have p: "?ts ! 0 = (js ''api'', js ''production'')" "?ts ! Suc 0 = (js ''api'', js ''staging'')"
    "?ts ! Suc (Suc 0) = (js ''web'', js ''production'')"
    by (simp_all add: sampleDialog_def)
  have eval: "toasts sampleDialog = []" "?n = 4"
    "?ts = [(js ''api'', js ''production''), (js ''api'', js ''staging''),
            (js ''web'', js ''production''), (js ''web'', js ''staging'')]"
    by (simp_all add: sampleDialog_def)
  have none: "filter success (results (bulkCreateSecrets unreachable sampleProps sampleDialog)) = []"
    by (simp add: unreachable_results)
  have one: "length (filter success (results (bulkCreateSecrets flaky sampleProps sampleDialog))) = 1"
    by (simp add: flaky_results)
  note thrown = bulk_run_never_aborts [OF k(2) p(2), where net = flaky and P = sampleProps
      and envCreated = True and called = False and envCreated' = True and called' = False
      and envLog = "[GetEnvironment (js ''acme'') (js ''api'') (js ''production''),
       PutSecret (js ''acme'') (js ''api'') (js ''production'') (js ''TOKEN'') (js ''aHVudGVyMg==''),
       GetEnvironment (js ''acme'') (js ''api'') (js ''staging'')]"
      and envLog' = "[GetEnvironment (js ''acme'') (js ''api'') (js ''production''),
       PostVariable (js ''acme'') (js ''api'') (js ''production'') (js ''REGION'') (js ''eu''),
       GetEnvironment (js ''acme'') (js ''api'') (js ''staging'')]"]
  note refused = bulk_run_never_aborts [OF k(3) p(3), where net = flaky and P = sampleProps
      and envCreated = True and called = False
      and envLog = "[GetEnvironment (js ''acme'') (js ''api'') (js ''production''),
       PutSecret (js ''acme'') (js ''api'') (js ''production'') (js ''TOKEN'') (js ''aHVudGVyMg==''),
       GetEnvironment (js ''acme'') (js ''api'') (js ''staging''),
       PutSecret (js ''acme'') (js ''api'') (js ''staging'') (js ''TOKEN'') (js ''aHVudGVyMg==''),
       GetEnvironment (js ''acme'') (js ''web'') (js ''production'')]", THEN conjunct1]
  note unavailable = bulk_run_never_aborts [OF k(1) p(1), where net = unreachable and P = sampleProps
      and envCreated = False and called = False
      and envLog = "[GetEnvironment (js ''acme'') (js ''api'') (js ''production'')]", THEN conjunct1]
  have recorded:
    "results (bulkCreateSecrets flaky sampleProps sampleDialog) ! Suc 0 =
       \<lparr>repo = js ''api'', environment = js ''staging'', success = False,
        error = Some (js ''Failed to fetch'')\<rparr>"
    "results (bulkCreateSecrets flaky sampleProps sampleDialog) ! Suc (Suc 0) =
       \<lparr>repo = js ''web'', environment = js ''production'', success = False,
        error = Some (js ''HTTP 403'')\<rparr>"
    "results (bulkCreateVariables flaky sampleProps sampleDialog) ! Suc 0 =
       \<lparr>repo = js ''api'', environment = js ''staging'', success = False,
        error = Some (js ''Failed to fetch'')\<rparr>"
    "results (bulkCreateSecrets unreachable sampleProps sampleDialog) ! 0 =
       \<lparr>repo = js ''api'', environment = js ''production'', success = False,
        error = Some (js ''Failed to create/access environment'')\<rparr>"
    by (simp_all add: flaky_results unreachable_results)
  show ?thesis
    using thrown refused unavailable
    by (simp add: sample_valid sample_encoded flaky_second_target flaky_third_target
        unreachable_first_target eval none one recorded numeral_2_eq_2)
qed
text \<open>
  Claim C6. In every bulk run the targets are processed and the results are recorded in the
  order of the outer loop over the selected repositories and the inner loop over the
  selected environments: for \<open>i < |R|\<close> and \<open>j < |E|\<close> the result at index
  \<open>i * |E| + j\<close> is the one of the pair \<open>(R[i], E[j])\<close>, and the iteration that
  follows the first \<open>i * |E| + j\<close> ones is the loop body for that pair.
\<close>

theorem bulk_results_in_loop_order:
  assumes "i < length (selectedRepos s)" and "j < length (selectedEnvironments s)"
  shows "(trim (secretName s) \<noteq> [] \<and> trim (secretValue s) \<noteq> [] \<longrightarrow>
           target_of (results (bulkCreateSecrets net P s) ! (i * length (selectedEnvironments s) + j)) =
             (selectedRepos s ! i, selectedEnvironments s ! j)) \<and>
         (trim (variableName s) \<noteq> [] \<and> trim (variableValue s) \<noteq> [] \<longrightarrow>
           target_of (results (bulkCreateVariables net P s) ! (i * length (selectedEnvironments s) + j)) =
             (selectedRepos s ! i, selectedEnvironments s ! j)) \<and>
         secretsReached net P s (Suc (i * length (selectedEnvironments s) + j)) =
           secretTarget net P (secretName s) (secretValue s)
             (length (selectedRepos s) * length (selectedEnvironments s))
             (selectedRepos s ! i) (selectedEnvironments s ! j)
             (secretsReached net P s (i * length (selectedEnvironments s) + j)) \<and>
         variablesReached net P s (Suc (i * length (selectedEnvironments s) + j)) =
           variableTarget net P (variableName s) (variableValue s)
             (length (selectedRepos s) * length (selectedEnvironments s))
             (selectedRepos s ! i) (selectedEnvironments s ! j)
             (variablesReached net P s (i * length (selectedEnvironments s) + j))"
proof -
  let ?k = "i * length (selectedEnvironments s) + j"
  note idx = product_index [OF assms]
  have ne: "selectedRepos s \<noteq> []" "selectedEnvironments s \<noteq> []"
    using assms by auto
  have nth: "target_of (xs ! ?k) = (selectedRepos s ! i, selectedEnvironments s ! j)"
    if "map target_of xs = List.product (selectedRepos s) (selectedEnvironments s)" for xs
  proof -
    have "length xs = length (selectedRepos s) * length (selectedEnvironments s)"
      using arg_cong [OF that, of length] by simp
    then have "map target_of xs ! ?k = target_of (xs ! ?k)"
      using idx(1) by simp
    then show ?thesis using idx(2) by (simp add: that)
  qed
  show ?thesis
    using ne nth
    by (simp add: secrets_targets variables_targets secretsReached_Suc [OF idx]
        variablesReached_Suc [OF idx])
qed


theorem bulk_results_in_loop_order_witness:
  "(1::nat) < length (selectedRepos sampleDialog) \<and> (0::nat) < length (selectedEnvironments sampleDialog) \<and>
   trim (secretName sampleDialog) \<noteq> [] \<and> trim (secretValue sampleDialog) \<noteq> [] \<and>
   trim (variableName sampleDialog) \<noteq> [] \<and> trim (variableValue sampleDialog) \<noteq> [] \<and>
   target_of (results (bulkCreateSecrets stagingUnavailable sampleProps sampleDialog) ! 2) =
     (js ''web'', js ''production'') \<and>
   target_of (results (bulkCreateVariables stagingUnavailable sampleProps sampleDialog) ! 2) =
     (js ''web'', js ''production'')"
proof -
  have h: "(1::nat) < length (selectedRepos sampleDialog)"
    "(0::nat) < length (selectedEnvironments sampleDialog)"
    by (simp_all add: sampleDialog_def)
  have eval: "length (selectedEnvironments sampleDialog) = 2"
    "selectedRepos sampleDialog ! Suc 0 = js ''web''"
    "selectedEnvironments sampleDialog ! 0 = js ''production''"
    by (simp_all add: sampleDialog_def)
  show ?thesis
    using bulk_results_in_loop_order [OF h, of stagingUnavailable sampleProps] h sample_valid
    by (simp add: eval)
qed







text \<open>
  Claim C9, as the code has it. A bulk creation of a secret or a variable whose name or
  value is empty or consists of whitespace only, or whose list of selected repositories or
  of selected environments is empty, returns before any request is issued and leaves the
  dialog as it was: no request, no result, no progress, and no toast either.
\<close>

theorem invalid_inputs_rejected:
  "((\<forall>c \<in> set (secretName s). is_ws c) \<or> (\<forall>c \<in> set (secretValue s). is_ws c) \<or>
      selectedRepos s = [] \<or> selectedEnvironments s = [] \<longrightarrow>
        bulkCreateSecrets net P s = s) \<and>
   ((\<forall>c \<in> set (variableName s). is_ws c) \<or> (\<forall>c \<in> set (variableValue s). is_ws c) \<or>
      selectedRepos s = [] \<or> selectedEnvironments s = [] \<longrightarrow>
        bulkCreateVariables net P s = s)"
  by (simp add: bulkCreateSecrets_def bulkCreateVariables_def trim_empty_iff)

theorem invalid_inputs_rejected_witness:
  "bulkCreateSecrets unreachable sampleProps blankName = blankName \<and>
   requests (bulkCreateSecrets unreachable sampleProps blankName) = [] \<and>
   bulkCreateVariables unreachable sampleProps noRepos = noRepos \<and>
   toasts (bulkCreateVariables unreachable sampleProps noRepos) = []"
proof -
  have "\<forall>c \<in> set (secretName blankName). is_ws c"
    by (simp add: blankName_def js_def is_ws_def)
  moreover have "selectedRepos noRepos = []"
    by (simp add: noRepos_def)
  moreover have "requests blankName = []" "toasts noRepos = []"
    by (simp_all add: blankName_def noRepos_def sampleDialog_def)
  ultimately show ?thesis
    using invalid_inputs_rejected [of blankName unreachable sampleProps]
      invalid_inputs_rejected [of noRepos unreachable sampleProps]
    by simp
qed

text \<open>
  Claim C9 as stated also asks for the rejection to be surfaced to the caller. In the sample
  invocation with a secret name of two spaces the operation returns nothing, throws nothing
  and changes nothing that the caller could observe: the dialog after the call is the dialog
  before it.
\<close>

theorem blank_name_rejected_silently:
  "trim (secretName blankName) = [] \<and>
   bulkCreateSecrets alwaysOk sampleProps blankName = blankName \<and>
   toasts (bulkCreateSecrets alwaysOk sampleProps blankName) = [] \<and>
   results (bulkCreateSecrets alwaysOk sampleProps blankName) = [] \<and>
   progress (bulkCreateSecrets alwaysOk sampleProps blankName) = [] \<and>
   \<not> isProcessing (bulkCreateSecrets alwaysOk sampleProps blankName)"
  by (simp add: bulkCreateSecrets_def blankName_def sampleDialog_def trim_def js_def is_ws_def)



end
